theory Spec2Isabelle
  imports Complex_Main
begin

section \<open>JavaScript numbers and values\<close>

text \<open>
  The program is TypeScript. Its numbers are modelled as reals, and \<open>None\<close> in an
  \<open>option\<close> field stands for \<^verbatim>\<open>undefined\<close> where the code can see it in a numeric
  field. Volumes, counts and prices are added and compared as the mathematical numbers they
  are. The running sum of an \<^verbatim>\<open>average_function\<close> instruction is the one number of
  which a property under study depends on rounding: there every addition and subtraction
  is rounded to the nearest IEEE 754 double, as JavaScript does.
\<close>

text \<open>
  \<open>expUp x\<close> is the number of halvings that bring \<open>x \<ge> 1\<close> below 2, and \<open>expDown x\<close> is
  minus the number of doublings that bring \<open>0 < x < 1\<close> to 1 or above: together the
  binary exponent of a positive number, \<open>binade\<close>.
\<close>

function expUp :: "real \<Rightarrow> int" where
  "expUp x = (if 2 \<le> x then 1 + expUp (x / 2) else 0)"
  by pat_completeness auto
termination
proof (relation "measure (\<lambda>x. nat \<lfloor>x\<rfloor>)")
  show "wf (measure (\<lambda>x::real. nat \<lfloor>x\<rfloor>))" by simp
next
  fix x :: real
  assume x: "2 \<le> x"
  then have "x / 2 \<le> x - 1" by simp
  then have "\<lfloor>x / 2\<rfloor> \<le> \<lfloor>x - 1\<rfloor>" by (rule floor_mono)
  then have "\<lfloor>x / 2\<rfloor> < \<lfloor>x\<rfloor>" by simp
  moreover from x have "0 < \<lfloor>x\<rfloor>" by simp
  ultimately show "(x / 2, x) \<in> measure (\<lambda>x. nat \<lfloor>x\<rfloor>)" by simp
qed

function expDown :: "real \<Rightarrow> int" where
  "expDown x = (if 0 < x \<and> x < 1 then expDown (2 * x) - 1 else 0)"
  by pat_completeness auto
termination
proof (relation "measure (\<lambda>x. nat \<lceil>1 / x\<rceil>)")
  show "wf (measure (\<lambda>x::real. nat \<lceil>1 / x\<rceil>))" by simp
next
  fix x :: real
  assume x: "0 < x \<and> x < 1"
  then have y: "1 < 1 / x" by simp
  then have c: "2 \<le> \<lceil>1 / x\<rceil>" by linarith
  have "1 / (2 * x) = (1 / x) / 2" by simp
  also have "\<dots> \<le> of_int \<lceil>1 / x\<rceil> / 2" by (simp add: divide_right_mono)
  also from c have "\<dots> \<le> of_int (\<lceil>1 / x\<rceil> - 1)" by simp
  finally have "1 / (2 * x) \<le> of_int (\<lceil>1 / x\<rceil> - 1)" .
  then have "\<lceil>1 / (2 * x)\<rceil> \<le> \<lceil>1 / x\<rceil> - 1" by (rule ceiling_le)
  with c have "nat \<lceil>1 / (2 * x)\<rceil> < nat \<lceil>1 / x\<rceil>" by linarith
  then show "(2 * x, x) \<in> measure (\<lambda>x. nat \<lceil>1 / x\<rceil>)" by simp
qed

declare expUp.simps [simp del] expDown.simps [simp del]

definition binade :: "real \<Rightarrow> int" where
  "binade x = (if 1 \<le> \<bar>x\<bar> then expUp \<bar>x\<bar> else expDown \<bar>x\<bar>)"

definition pow2 :: "int \<Rightarrow> real" where
  "pow2 e = (if 0 \<le> e then 2 ^ nat e else 1 / 2 ^ nat (- e))"

text \<open>The nearest integer, a tie going to the even one.\<close>

definition roundEven :: "real \<Rightarrow> int" where
  "roundEven m =
     (let f = \<lfloor>m\<rfloor>; d = m - of_int f
      in if d < 1 / 2 then f else if 1 / 2 < d then f + 1 else if even f then f else f + 1)"

text \<open>
  \<open>toDouble x\<close>: the double nearest to \<open>x\<close>, a tie going to the even significand. A double
  is an integer of magnitude at most \<open>2 ^ 53\<close> times a power of two; the spacing of the
  doubles around \<open>x\<close> is \<open>pow2 (binade x - 52)\<close>, and never less than \<open>pow2 (- 1074)\<close>
  (the subnormal doubles). A result of magnitude \<open>2 ^ 1024\<close> or more, which is
  \<^verbatim>\<open>Infinity\<close> in JavaScript, is outside the model.
\<close>

definition toDouble :: "real \<Rightarrow> real" where
  "toDouble x =
     (if x = 0 then 0
      else (let e = max (- 1074) (binade x - 52)
            in of_int (roundEven (x / pow2 e)) * pow2 e))"

section \<open>Sliding-window counter (class Counter)\<close>

text \<open>
  The fields of \<^verbatim>\<open>Counter\<close> that the update and expiry logic touches.
  \<^verbatim>\<open>timeouts\<close> holds one pending timer per call of \<^verbatim>\<open>appendStack\<close>; every timer
  runs \<^verbatim>\<open>shiftStack\<close> once, \<^verbatim>\<open>window\<close> milliseconds after it was set, so timers fire
  in the order in which they were created. The list stores the wall-clock deadline of each.
\<close>

record counter =
  window :: real
  granularity :: real
  ctype :: string
  timestamp :: "real option"
  live :: real
  stacks :: "real list"
  filled :: bool
  remaining :: "real option"
  timeouts :: "real list"

text \<open>JavaScript truthiness of a numeric field that may be undefined.\<close>

definition truthy :: "real option \<Rightarrow> bool" where
  "truthy v = (case v of None \<Rightarrow> False | Some x \<Rightarrow> x \<noteq> 0)"

definition clear :: "counter \<Rightarrow> counter" where
  "clear c = c\<lparr>stacks := [], live := 0, filled := False, remaining := Some 0, timeouts := []\<rparr>"

text \<open>
  The constructor, for the fields above: \<^verbatim>\<open>options.window\<close> is taken when it is a
  number, else the setting \<^verbatim>\<open>statsWindow\<close>, else 60000.
\<close>

definition new_counter :: "real option \<Rightarrow> real \<Rightarrow> real \<Rightarrow> string option \<Rightarrow> counter" where
  "new_counter opt_window statsWindow statsGranularity opt_type =
     (let w0 = (case opt_window of Some w \<Rightarrow> w | None \<Rightarrow> statsWindow);
          w = (if w0 = 0 then 60000 else w0)
      in clear \<lparr>window = w, granularity = max statsGranularity (w / 5000),
                ctype = (case opt_type of Some t \<Rightarrow> (if t = [] then ''line'' else t) | None \<Rightarrow> ''line''),
                timestamp = None, live = 0, stacks = [], filled = False,
                remaining = Some 0, timeouts = []\<rparr>)"

text \<open>
  \<^verbatim>\<open>appendStack(timestamp)\<close>; \<open>now\<close> is the wall clock, read for the timer and when the
  given timestamp is falsy.
\<close>

definition appendStack :: "real \<Rightarrow> real \<Rightarrow> counter \<Rightarrow> counter" where
  "appendStack now ts c =
     (let ts' = (if ts = 0 then now else ts);
          c1 = c\<lparr>stacks := stacks c @ [0], timestamp := Some ts',
                 timeouts := timeouts c @ [now + window c]\<rparr>
      in if \<not> filled c1 \<and> real (length (stacks c1)) = window c1 / granularity c1
         then c1\<lparr>filled := True\<rparr> else c1)"

text \<open>\<^verbatim>\<open>addData(data)\<close>: add to the newest slot and to the live sum.\<close>

definition addData :: "real \<Rightarrow> counter \<Rightarrow> counter" where
  "addData d c =
     c\<lparr>stacks := (if stacks c = [] then [] else butlast (stacks c) @ [last (stacks c) + d]),
       live := live c + d\<rparr>"

text \<open>
  \<^verbatim>\<open>onStats(timestamp, stats)\<close>. A new slot is opened when there is none or the newest
  one is older than the granularity; otherwise, once the window is filled and
  \<^verbatim>\<open>remaining\<close> is truthy, the part of the oldest slot still counted is interpolated
  down. A slot exists only after \<^verbatim>\<open>appendStack\<close> has set the timestamp, so the last case
  of the distinction below does not arise.
\<close>

definition onStats :: "('s \<Rightarrow> real) \<Rightarrow> real \<Rightarrow> real \<Rightarrow> 's \<Rightarrow> counter \<Rightarrow> counter" where
  "onStats outputFunction now ts stats c =
     (let v = outputFunction stats;
          c1 = (case (stacks c, timestamp c) of
                  ([], _) \<Rightarrow> appendStack now ts c
                | (s0 # _, Some t0) \<Rightarrow>
                    if ts > t0 + granularity c then appendStack now ts c
                    else (case remaining c of
                            None \<Rightarrow> c
                          | Some rem \<Rightarrow>
                              if filled c \<and> rem \<noteq> 0
                              then (let p = (ts - t0) / granularity c;
                                        r = of_int \<lceil>s0 * (1 - p)\<rceil>;
                                        change = rem - r
                                    in c\<lparr>remaining := Some r, live := live c - change\<rparr>)
                              else c)
                | (_ # _, None) \<Rightarrow> c)
      in addData v c1)"

text \<open>
  \<^verbatim>\<open>shiftStack()\<close>, run by a slot's timer: drop the timer and the oldest slot; when the
  slot held something, take what is left of \<^verbatim>\<open>remaining\<close> off the live sum and remember
  the next slot as the one that decays next. The statement \<^verbatim>\<open>this.live -= stack\<close> is
  commented out in the source.
\<close>

definition shiftStack :: "counter \<Rightarrow> counter" where
  "shiftStack c =
     (let c1 = c\<lparr>timeouts := tl (timeouts c)\<rparr>
      in case stacks c1 of
           [] \<Rightarrow> c1
         | stack # rest \<Rightarrow>
             (let c2 = c1\<lparr>stacks := rest\<rparr>
              in if stack = 0 then c2
                 else (let c3 = (case remaining c2 of
                                   None \<Rightarrow> c2
                                 | Some rem \<Rightarrow> if rem \<noteq> 0 then c2\<lparr>live := live c2 - rem\<rparr> else c2)
                       in c3\<lparr>remaining := (case rest of [] \<Rightarrow> None | s # _ \<Rightarrow> Some s)\<rparr>)))"

definition getValue :: "counter \<Rightarrow> real" where
  "getValue c = live c"

text \<open>
  \<^verbatim>\<open>updateSerie()\<close>: the point handed to the counter's series in the chart, if any;
  \<open>hasSerie\<close> says that the series has been created. A timestamp that is unset or 0 and,
  for a histogram, a value of 0 give no point.
\<close>

definition updateSerie :: "bool \<Rightarrow> counter \<Rightarrow> (real \<times> real) option" where
  "updateSerie hasSerie c =
     (let v = getValue c
      in case timestamp c of
           None \<Rightarrow> None
         | Some t \<Rightarrow>
             if \<not> hasSerie \<or> t = 0 \<or> (ctype c = ''histogram'' \<and> v = 0) then None
             else Some (t / 1000, v))"

text \<open>
  Events on the single-threaded timeline: an update arriving at wall-clock time \<open>now\<close>, or
  the oldest pending slot timer firing.
\<close>

datatype 's counter_event = Update real real 's | Expire

fun counter_step :: "('s \<Rightarrow> real) \<Rightarrow> counter \<Rightarrow> 's counter_event \<Rightarrow> counter" where
  "counter_step f c (Update now ts stats) = onStats f now ts stats c"
| "counter_step f c Expire = shiftStack c"

definition counter_run :: "('s \<Rightarrow> real) \<Rightarrow> counter \<Rightarrow> 's counter_event list \<Rightarrow> counter" where
  "counter_run f c evs = foldl (counter_step f) c evs"


section \<open>Bars, trades and the Renderer\<close>

text \<open>
  A value as an adapter can return it or as it is stored in \<^verbatim>\<open>serieData.value\<close>: a
  number, \<^verbatim>\<open>NaN\<close>, \<^verbatim>\<open>null\<close>, \<^verbatim>\<open>undefined\<close>, or a plain object, given by its own
  properties in insertion order.
\<close>

datatype jsval = Num real | NaN | Null | Undef | Obj "(string \<times> jsval) list"

text \<open>\<^verbatim>\<open>isNaN(v)\<close>: \<^verbatim>\<open>Number(v)\<close> is \<^verbatim>\<open>NaN\<close>. \<^verbatim>\<open>Number(null)\<close> is 0.\<close>

fun isNaN :: "jsval \<Rightarrow> bool" where
  "isNaN (Num x) = False"
| "isNaN NaN = True"
| "isNaN Null = False"
| "isNaN Undef = True"
| "isNaN (Obj fs) = True"

datatype error = TypeError string | Error string

text \<open>
  Reading a property: of an object, the property or \<^verbatim>\<open>undefined\<close>; of a number,
  \<^verbatim>\<open>undefined\<close>; of \<^verbatim>\<open>null\<close> or \<^verbatim>\<open>undefined\<close>, a \<^verbatim>\<open>TypeError\<close>.
\<close>

fun getProp :: "jsval \<Rightarrow> string \<Rightarrow> error + jsval" where
  "getProp (Obj fs) k = Inr (case map_of fs k of None \<Rightarrow> Undef | Some v \<Rightarrow> v)"
| "getProp (Num x) k = Inr Undef"
| "getProp NaN k = Inr Undef"
| "getProp Null k = Inl (TypeError ''Cannot read properties of null'')"
| "getProp Undef k = Inl (TypeError ''Cannot read properties of undefined'')"

text \<open>
  Writing an own property of an object (\<^verbatim>\<open>o[k] = v\<close>): an existing key keeps its place,
  a new one goes to the end. The same function updates the \<^verbatim>\<open>sources\<close> of a Renderer.
\<close>

fun setKey :: "string \<Rightarrow> 'v \<Rightarrow> (string \<times> 'v) list \<Rightarrow> (string \<times> 'v) list" where
  "setKey k v [] = [(k, v)]"
| "setKey k v ((k', v') # kvs) = (if k = k' then (k, v) # kvs else (k', v') # setKey k v kvs)"

datatype side = Buy | Sell

record trade =
  t_exchange :: string
  t_pair :: string
  t_timestamp :: real
  t_price :: real
  t_size :: real
  t_side :: side
  t_liquidation :: bool

text \<open>
  Interface \<^verbatim>\<open>Bar\<close>. All its fields are optional in the source; the code uses it at two
  shapes. The Renderer's combined bar carries the six volume and count fields and the flags
  \<^verbatim>\<open>empty\<close> and \<^verbatim>\<open>hasData\<close>; a per-source bar carries in addition the source, the
  timestamp and the prices. A flag that was never assigned is \<open>None\<close>.
\<close>

record bar =
  vbuy :: real
  vsell :: real
  cbuy :: real
  csell :: real
  lbuy :: real
  lsell :: real
  bar_empty :: "bool option"
  hasData :: "bool option"

record source_bar = bar +
  exchange :: string
  pair :: "string option"
  bar_timestamp :: "real option"
  bar_open :: real
  high :: real
  low :: real
  close :: real

text \<open>A flag read in a condition: \<^verbatim>\<open>undefined\<close> is falsy.\<close>

definition flag :: "bool option \<Rightarrow> bool" where
  "flag f = (f = Some True)"

text \<open>
  Compiled formula nodes. The tag \<^verbatim>\<open>type\<close> of an instruction and the shape of its
  \<^verbatim>\<open>state\<close> are created together by the transpiler, so the state is a datatype with one
  constructor per tag: \<^verbatim>\<open>average_function\<close> (queue, running sum, count, last output),
  \<^verbatim>\<open>ohlc\<close>, \<^verbatim>\<open>array\<close>, and any other tag, whose state the Controller never touches.
\<close>

record average_state =
  avg_points :: "real list"
  avg_sum :: real
  avg_count :: int
  avg_output :: real

record ohlc_state =
  ohlc_open :: real
  ohlc_high :: real
  ohlc_low :: real
  ohlc_close :: real

datatype instruction_state =
    Average_function average_state
  | Ohlc ohlc_state
  | Array "jsval list"
  | Other string jsval

record instruction =
  i_name :: string
  arg :: real
  state :: instruction_state

text \<open>\<^verbatim>\<open>RendererSerieData\<close>.\<close>

record serie_data =
  sd_value :: jsval
  sd_point :: jsval
  sd_functions :: "instruction list"
  sd_variables :: "instruction list"

text \<open>
  Interface \<^verbatim>\<open>Renderer\<close>. Besides the declared \<^verbatim>\<open>sources\<close>, the code reads and writes
  a property \<^verbatim>\<open>exchanges\<close> (in \<^verbatim>\<open>resetRendererBar\<close> and \<^verbatim>\<open>renderBars\<close>) that no
  constructor of a Renderer creates: it is \<open>None\<close> (\<^verbatim>\<open>undefined\<close>) unless assigned.
\<close>

record renderer =
  r_timestamp :: "real option"
  bar :: bar
  sources :: "(string \<times> source_bar) list"
  exchanges :: "(string \<times> source_bar) list option"
  series :: "string \<rightharpoonup> serie_data"

text \<open>\<^verbatim>\<open>resetBar(bar)\<close>.\<close>

definition resetBar :: "source_bar \<Rightarrow> source_bar" where
  "resetBar b = b\<lparr>bar_open := close b, high := close b, low := close b,
                   vbuy := 0, vsell := 0, cbuy := 0, csell := 0, lbuy := 0, lsell := 0,
                   bar_empty := Some False\<rparr>"

text \<open>\<^verbatim>\<open>resetRendererBar(renderer)\<close>: a fresh combined bar; the bars of \<^verbatim>\<open>renderer.exchanges\<close>,
  when that property is defined, are reset.\<close>

definition resetRendererBar :: "renderer \<Rightarrow> renderer" where
  "resetRendererBar r =
     r\<lparr>bar := \<lparr>vbuy = 0, vsell = 0, cbuy = 0, csell = 0, lbuy = 0, lsell = 0,
               bar_empty = None, hasData = Some False\<rparr>,
       exchanges := (case exchanges r of None \<Rightarrow> None
                     | Some ex \<Rightarrow> Some (map (\<lambda>(k, b). (k, resetBar b)) ex))\<rparr>"

text \<open>
  The bucket-advance transition of one function instruction and of one variable
  instruction (the bodies of the two inner loops of \<^verbatim>\<open>nextBar\<close>). The two updates of
  the running sum, \<^verbatim>\<open>sum += output\<close> and \<^verbatim>\<open>sum -= points.shift()\<close>, are operations on
  doubles: each result is rounded.
\<close>

definition advanceAverage :: "real \<Rightarrow> average_state \<Rightarrow> average_state" where
  "advanceAverage a s =
     (let s1 = s\<lparr>avg_points := avg_points s @ [avg_output s],
                 avg_sum := toDouble (avg_sum s + avg_output s),
                 avg_count := avg_count s + 1\<rparr>
      in if real_of_int (avg_count s1) > a
         then (case avg_points s1 of
                 [] \<Rightarrow> s1
               | p # ps \<Rightarrow> s1\<lparr>avg_points := ps, avg_sum := toDouble (avg_sum s1 - p),
                              avg_count := avg_count s1 - 1\<rparr>)
         else s1)"

definition advanceFunction :: "instruction \<Rightarrow> instruction" where
  "advanceFunction i =
     (case state i of
        Average_function s \<Rightarrow> i\<lparr>state := Average_function (advanceAverage (arg i) s)\<rparr>
      | Ohlc s \<Rightarrow> i\<lparr>state := Ohlc (s\<lparr>ohlc_open := ohlc_close s, ohlc_high := ohlc_close s,
                                      ohlc_low := ohlc_close s\<rparr>)\<rparr>
      | _ \<Rightarrow> i)"

definition advanceVariable :: "instruction \<Rightarrow> instruction" where
  "advanceVariable i =
     (case state i of
        Array xs \<Rightarrow>
          (let ys = (case xs of [] \<Rightarrow> Undef | x # _ \<Rightarrow> x) # xs
           in i\<lparr>state := Array (if real (length ys) > arg i then butlast ys else ys)\<rparr>)
      | _ \<Rightarrow> i)"

definition advanceSerie :: "renderer \<Rightarrow> string \<Rightarrow> renderer" where
  "advanceSerie r sid =
     (case series r sid of
        None \<Rightarrow> r
      | Some sd \<Rightarrow>
          r\<lparr>series := (series r)(sid \<mapsto>
               sd\<lparr>sd_functions := map advanceFunction (sd_functions sd),
                  sd_variables := map advanceVariable (sd_variables sd)\<rparr>)\<rparr>)"

text \<open>
  \<^verbatim>\<open>nextBar(timestamp, renderer)\<close>; \<open>ids\<close> are the identifiers of \<^verbatim>\<open>this.activeSeries\<close>,
  in order. The guard reads \<^verbatim>\<open>renderer.bar.empty\<close>. A timestamp is \<open>None\<close> when it
  is \<^verbatim>\<open>undefined\<close> (a cached bar can lack one).
\<close>

definition nextBar :: "string list \<Rightarrow> real option \<Rightarrow> renderer \<Rightarrow> renderer" where
  "nextBar ids ts r =
     (let r1 = (if \<not> flag (bar_empty (bar r)) then foldl advanceSerie r ids else r)
      in resetRendererBar (r1\<lparr>r_timestamp := ts\<rparr>))"


section \<open>Series and the Controller\<close>

datatype output_type = OhlcT | ValueT | CustomT

text \<open>\<^verbatim>\<open>SerieTranspilationResult\<close>; \<^verbatim>\<open>references\<close> is optional in the source.\<close>

record transpilation =
  m_output :: string
  m_type :: output_type
  m_variables :: "instruction list"
  m_functions :: "instruction list"
  m_references :: "string list option"

text \<open>
  \<^verbatim>\<open>SerieAdapter\<close>: the compiled closure. It reads the Renderer and the series' options
  and may update the instruction states it is handed, so it returns them with its result.
\<close>

type_synonym adapter =
  "renderer \<Rightarrow> instruction list \<Rightarrow> instruction list \<Rightarrow> (string \<times> jsval) list
     \<Rightarrow> jsval \<times> instruction list \<times> instruction list"

text \<open>\<^verbatim>\<open>ActiveSerie\<close>; \<^verbatim>\<open>api\<close> is the handle of the series in the chart, when created.\<close>

record serie =
  enabled :: bool
  serie_id :: string
  serie_type :: string
  input :: string
  options :: "(string \<times> jsval) list"
  model :: "transpilation option"
  adapter :: "adapter option"
  api :: "string option"

text \<open>
  The transpiler (class \<^verbatim>\<open>SerieTranspiler\<close>) is imported by the Controller and is not
  part of the source at hand: its three methods are parameters of the model.
\<close>

record transpiler =
  transpile :: "serie \<Rightarrow> error + transpilation"
  getAdapter :: "string \<Rightarrow> adapter"
  updateInstructionsArgument :: "instruction list \<Rightarrow> instruction list"

text \<open>The settings the Controller reads from the store.\<close>

record settings =
  timeframe :: real
  timezoneOffset :: real
  activeExchanges :: "string \<Rightarrow> bool"

text \<open>
  The Controller's state as far as series and the live Renderer go, with what it writes to
  its collaborators: the \<^verbatim>\<open>SET_SERIE_ERROR\<close> commits in order, the serie dialog that is
  open (at most one), the \<^verbatim>\<open>ENABLE_SERIE\<close> commits, the series created in the chart
  (method and identifier), and the calls \<^verbatim>\<open>api.setData\<close> and \<^verbatim>\<open>api.update\<close> made on the
  chart's series, in order. \<^verbatim>\<open>chunks\<close> are the chunks of the cache
  (\<^verbatim>\<open>chartCache.chunks\<close>), in cache order.
\<close>

datatype sink_call = SetData string "jsval list" | UpdateLast string jsval

record chunk =
  c_from :: real
  c_to :: real
  c_active :: bool
  c_rendered :: bool
  c_bars :: "source_bar list"

record controller =
  activeSeries :: "serie list"
  activeRenderer :: "renderer option"
  serieErrors :: "(string \<times> string option) list"
  serieDialog :: "string option"
  enabledSeries :: "string list"
  chartSeries :: "(string \<times> string) list"
  sinkCalls :: "sink_call list"
  chunks :: "chunk list"

definition setSerieError :: "string \<Rightarrow> string option \<Rightarrow> controller \<Rightarrow> controller" where
  "setSerieError sid msg c = c\<lparr>serieErrors := serieErrors c @ [(sid, msg)]\<rparr>"

definition openSerieDialog :: "string \<Rightarrow> controller \<Rightarrow> controller" where
  "openSerieDialog sid c = (case serieDialog c of None \<Rightarrow> c\<lparr>serieDialog := Some sid\<rparr> | Some _ \<Rightarrow> c)"

subsection \<open>Preparing and registering a series\<close>

text \<open>
  \<^verbatim>\<open>prepareSerie(serie)\<close>. The body of the \<^verbatim>\<open>try\<close> block: it ends in the model to
  store or in the error thrown. \<^verbatim>\<open>transpile\<close> is called twice on the same series; the
  first result gives \<^verbatim>\<open>output\<close> and \<^verbatim>\<open>type\<close>, the second the instruction lists and
  the references, whose length is read for the log.
\<close>

definition prepareModel :: "transpiler \<Rightarrow> serie \<Rightarrow> error + transpilation" where
  "prepareModel tr s =
     (case transpile tr s of
        Inl e \<Rightarrow> Inl e
      | Inr res1 \<Rightarrow>
        (case transpile tr s of
           Inl e \<Rightarrow> Inl e
         | Inr res2 \<Rightarrow>
           (case m_references res2 of
              None \<Rightarrow> Inl (TypeError ''Cannot read properties of undefined (reading 'length')'')
            | Some refs \<Rightarrow>
                if m_type res1 = OhlcT \<and> serie_type s \<noteq> ''candlestick'' \<and> serie_type s \<noteq> ''bar''
                then Inr \<lparr>m_output = m_output res1 @ ''.close'', m_type = ValueT,
                          m_variables = m_variables res2, m_functions = m_functions res2,
                          m_references = Some refs\<rparr>
                else if m_type res1 = ValueT \<and> (serie_type s = ''candlestick'' \<or> serie_type s = ''bar'')
                then Inl (Error ''code output is a single value but ohlc object ({open, high, low, close}) was expected'')
                else Inr \<lparr>m_output = m_output res1, m_type = m_type res1,
                          m_variables = m_variables res2, m_functions = m_functions res2,
                          m_references = Some refs\<rparr>)))"

definition errorMessage :: "error \<Rightarrow> string" where
  "errorMessage e = (case e of TypeError m \<Rightarrow> m | Error m \<Rightarrow> m)"

text \<open>
  \<^verbatim>\<open>prepareSerie\<close> with its \<^verbatim>\<open>catch\<close>: the result is the boolean returned, the series
  (with its model on success) and the Controller. The error of the series is cleared once
  transpilation has succeeded, before the kinds are compared.
\<close>

definition prepareSerie :: "transpiler \<Rightarrow> serie \<Rightarrow> controller \<Rightarrow> bool \<times> serie \<times> controller" where
  "prepareSerie tr s c =
     (let cleared = (case transpile tr s of
                       Inr res2 \<Rightarrow> (case m_references res2 of Some _ \<Rightarrow> True | None \<Rightarrow> False)
                     | Inl _ \<Rightarrow> False);
          c1 = (if cleared then setSerieError (serie_id s) None c else c)
      in case prepareModel tr s of
           Inr m \<Rightarrow> (True, s\<lparr>model := Some m\<rparr>, c1)
         | Inl e \<Rightarrow> (False, s,
                     openSerieDialog (serie_id s) (setSerieError (serie_id s) (Some (errorMessage e)) c1)))"

text \<open>\<^verbatim>\<open>bindSerie(serie, renderer)\<close>: fresh instruction state for the series in the Renderer,
  cloned from the model, and the adapter of the model's output expression.\<close>

definition bindSerie :: "transpiler \<Rightarrow> serie \<Rightarrow> renderer \<Rightarrow> serie \<times> renderer" where
  "bindSerie tr s r =
     (case model s of
        None \<Rightarrow> (s, r)
      | Some m \<Rightarrow>
          if series r (serie_id s) \<noteq> None then (s, r)
          else (s\<lparr>adapter := Some (getAdapter tr (m_output m))\<rparr>,
                r\<lparr>series := (series r)(serie_id s \<mapsto>
                     \<lparr>sd_value = Null, sd_point = Null,
                      sd_functions = updateInstructionsArgument tr (m_functions m),
                      sd_variables = m_variables m\<rparr>)\<rparr>))"

text \<open>\<^verbatim>\<open>unbindSerie(serie, renderer)\<close>.\<close>

definition unbindSerie :: "string \<Rightarrow> renderer \<Rightarrow> renderer" where
  "unbindSerie sid r = r\<lparr>series := (series r)(sid := None)\<rparr>"

text \<open>The name of the chart method that creates a series of a visual type:
  \<^verbatim>\<open>'add' + Type + 'Series'\<close>, the type capitalised. Only ASCII letters are mapped.\<close>

definition capitalise :: "string \<Rightarrow> string" where
  "capitalise t = (case t of [] \<Rightarrow> []
     | ch # rest \<Rightarrow> (let n = (of_char ch :: nat)
                     in if 97 \<le> n \<and> n \<le> 122 then char_of (n - 32) else ch) # rest)"

text \<open>
  \<^verbatim>\<open>addSerie(id)\<close>. The series' settings are looked up in the store and in the table of
  default series, which are not part of the source at hand: the resolved visual type (if
  any), input and options are parameters. The result is \<open>Inl\<close> for the error thrown,
  else the value returned (\<open>True\<close>, or \<open>False\<close> for \<^verbatim>\<open>undefined\<close>) and the Controller.
  The chart is taken to offer the creation method for the visual type. \<open>newSerie\<close> is the
  object the method builds before it prepares the series.
\<close>

definition newSerie :: "string \<Rightarrow> string \<Rightarrow> string \<Rightarrow> (string \<times> jsval) list \<Rightarrow> serie" where
  "newSerie sid ty serieInput serieOptions =
     \<lparr>enabled = False, serie_id = sid, serie_type = ty, input = serieInput,
      options = serieOptions, model = None, adapter = None, api = None\<rparr>"

definition addSerie ::
  "transpiler \<Rightarrow> string \<Rightarrow> string option \<Rightarrow> string \<Rightarrow> (string \<times> jsval) list \<Rightarrow> controller
     \<Rightarrow> error + (bool \<times> controller)" where
  "addSerie tr sid serieType serieInput serieOptions c =
     (case serieType of
        None \<Rightarrow> Inl (Error ''unknown-serie-type'')
      | Some ty \<Rightarrow>
          if ty = [] then Inl (Error ''unknown-serie-type'')
          else
            (let s = newSerie sid ty serieInput serieOptions;
                 c1 = c\<lparr>enabledSeries := enabledSeries c @ [sid]\<rparr>
             in case prepareSerie tr s c1 of
                  (False, _, c2) \<Rightarrow> Inr (False, c2)
                | (True, s1, c2) \<Rightarrow>
                    (let meth = ''add'' @ capitalise ty @ ''Series'';
                         s2 = s1\<lparr>api := Some meth\<rparr>;
                         c3 = c2\<lparr>chartSeries := chartSeries c2 @ [(meth, sid)]\<rparr>
                     in case activeRenderer c3 of
                          None \<Rightarrow> Inr (True, c3\<lparr>activeSeries := activeSeries c3 @ [s2]\<rparr>)
                        | Some r \<Rightarrow>
                            (let (s3, r1) = bindSerie tr s2 r
                             in Inr (True, c3\<lparr>activeSeries := activeSeries c3 @ [s3],
                                              activeRenderer := Some r1\<rparr>)))))"


subsection \<open>Computing the points of a bucket\<close>

definition andThen :: "error + 'a \<Rightarrow> ('a \<Rightarrow> error + 'b) \<Rightarrow> error + 'b" where
  "andThen m f = (case m of Inl e \<Rightarrow> Inl e | Inr x \<Rightarrow> f x)"

text \<open>The object \<^verbatim>\<open>{ time, ...point }\<close>: the own properties of \<^verbatim>\<open>point\<close> are copied in
  order over \<^verbatim>\<open>time\<close>; a number has none.\<close>

definition spreadOver :: "(string \<times> jsval) list \<Rightarrow> jsval \<Rightarrow> (string \<times> jsval) list" where
  "spreadOver base v = (case v of Obj fs \<Rightarrow> foldl (\<lambda>acc (k, x). setKey k x acc) base fs | _ \<Rightarrow> base)"

text \<open>
  The three branches on \<^verbatim>\<open>serie.model.type\<close> in \<^verbatim>\<open>computeBar\<close>: the value stored in
  \<^verbatim>\<open>serieData.value\<close> and the point put into \<^verbatim>\<open>points\<close>.
\<close>

definition classify :: "jsval \<Rightarrow> output_type \<Rightarrow> jsval \<Rightarrow> error + (jsval \<times> jsval)" where
  "classify time ty pt =
     (case ty of
        ValueT \<Rightarrow> Inr (pt, Obj [(''time'', time), (''value'', pt)])
      | OhlcT \<Rightarrow>
          andThen (getProp pt ''close'') (\<lambda>v.
          andThen (getProp pt ''open'') (\<lambda>op.
          andThen (getProp pt ''high'') (\<lambda>h.
          andThen (getProp pt ''low'') (\<lambda>l.
          andThen (getProp pt ''close'') (\<lambda>c.
            Inr (v, Obj [(''time'', time), (''open'', op), (''high'', h), (''low'', l), (''close'', c)]))))))
      | CustomT \<Rightarrow>
          andThen (getProp pt ''value'') (\<lambda>v. Inr (v, Obj (spreadOver [(''time'', time)] pt))))"

text \<open>
  The state of the loop of \<^verbatim>\<open>computeBar\<close>: the Renderer passed in, the Controller, and
  \<^verbatim>\<open>points\<close>. When \<open>isLive\<close> holds, the Renderer passed in is \<^verbatim>\<open>this.activeRenderer\<close>
  itself, the same object: it is kept in \<open>cb_renderer\<close> during the loop and written back
  at the end. Otherwise (a replay) the two are different objects.
\<close>

record compute_state =
  cb_renderer :: renderer
  cb_ctl :: controller
  cb_points :: "string \<rightharpoonup> jsval"

definition selected :: "string list option \<Rightarrow> serie \<Rightarrow> bool" where
  "selected flt s = (case flt of None \<Rightarrow> True | Some ids \<Rightarrow> serie_id s \<in> set ids)"

text \<open>What the loop does when the value of a series is \<^verbatim>\<open>NaN\<close>: unbind the series from
  \<^verbatim>\<open>this.activeRenderer\<close>, commit the error, open the dialog unless one is open.\<close>

definition dropSerie :: "bool \<Rightarrow> string \<Rightarrow> compute_state \<Rightarrow> compute_state" where
  "dropSerie isLive sid st =
     (let st1 = (if isLive then st\<lparr>cb_renderer := unbindSerie sid (cb_renderer st)\<rparr>
                 else st\<lparr>cb_ctl := (cb_ctl st)\<lparr>activeRenderer :=
                            map_option (unbindSerie sid) (activeRenderer (cb_ctl st))\<rparr>\<rparr>)
      in st1\<lparr>cb_ctl := openSerieDialog sid
                (setSerieError sid (Some (sid @ '' is NaN'')) (cb_ctl st1))\<rparr>)"

text \<open>
  One iteration of the loop of \<^verbatim>\<open>computeBar\<close>, for a series that is not skipped. There
  is no test of \<^verbatim>\<open>renderer.series[serie.id]\<close>: for a series without data in the Renderer
  the arguments of the adapter cannot be read (\<^verbatim>\<open>serieData.functions\<close>), and the adapter
  is not called.
\<close>

definition computeSerie :: "bool \<Rightarrow> jsval \<Rightarrow> serie \<Rightarrow> compute_state \<Rightarrow> error + compute_state" where
  "computeSerie isLive time s st =
     (case series (cb_renderer st) (serie_id s) of
        None \<Rightarrow> Inl (TypeError ''Cannot read properties of undefined (reading 'functions')'')
      | Some sd \<Rightarrow>
        (case adapter s of
           None \<Rightarrow> Inl (TypeError ''serie.adapter is not a function'')
         | Some f \<Rightarrow>
           (case f (cb_renderer st) (sd_functions sd) (sd_variables sd) (options s) of
              (pt, fs, vs) \<Rightarrow>
              (case model s of
                 None \<Rightarrow> Inl (TypeError ''Cannot read properties of null (reading 'type')'')
               | Some m \<Rightarrow>
                   andThen (classify time (m_type m) pt) (\<lambda>(v, p).
                     let sd1 = \<lparr>sd_value = v, sd_point = pt, sd_functions = fs, sd_variables = vs\<rparr>;
                         st1 = st\<lparr>cb_renderer := (cb_renderer st)\<lparr>series :=
                                     (series (cb_renderer st))(serie_id s \<mapsto> sd1)\<rparr>,
                                  cb_points := (cb_points st)(serie_id s \<mapsto> p)\<rparr>
                     in if isNaN v then Inr (dropSerie isLive (serie_id s) st1)
                        else if v = Null \<or> (serie_type s = ''histogram'' \<and> v = Num 0)
                        then Inr (st1\<lparr>cb_points := (cb_points st1)(serie_id s := None)\<rparr>)
                        else Inr st1)))))"

fun computeLoop ::
  "bool \<Rightarrow> jsval \<Rightarrow> string list option \<Rightarrow> serie list \<Rightarrow> compute_state \<Rightarrow> error + compute_state" where
  "computeLoop isLive time flt [] st = Inr st"
| "computeLoop isLive time flt (s # ss) st =
     (if \<not> selected flt s then computeLoop isLive time flt ss st
      else case computeSerie isLive time s st of
             Inl e \<Rightarrow> Inl e
           | Inr st1 \<Rightarrow> computeLoop isLive time flt ss st1)"

text \<open>
  \<^verbatim>\<open>computeBar(renderer, series)\<close>: the points, the Renderer passed in and the Controller
  afterwards, or the error thrown. \<open>barTime\<close> is the \<^verbatim>\<open>time\<close> of the points.
\<close>

definition barTime :: "settings \<Rightarrow> renderer \<Rightarrow> jsval" where
  "barTime cfg r = (case r_timestamp r of None \<Rightarrow> NaN
                    | Some t \<Rightarrow> Num (t + timezoneOffset cfg / 1000))"

definition computeBar ::
  "settings \<Rightarrow> bool \<Rightarrow> renderer \<Rightarrow> string list option \<Rightarrow> controller
     \<Rightarrow> error + ((string \<rightharpoonup> jsval) \<times> renderer \<times> controller)" where
  "computeBar cfg isLive r flt c =
     (case computeLoop isLive (barTime cfg r) flt (activeSeries c)
             \<lparr>cb_renderer = r, cb_ctl = c, cb_points = Map.empty\<rparr> of
        Inl e \<Rightarrow> Inl e
      | Inr st \<Rightarrow>
          Inr (cb_points st, cb_renderer st,
               if isLive then (cb_ctl st)\<lparr>activeRenderer := Some (cb_renderer st)\<rparr> else cb_ctl st))"

text \<open>\<^verbatim>\<open>updateBar(bar)\<close>: one \<^verbatim>\<open>api.update\<close> per active series that has a point.\<close>

definition barUpdates :: "(string \<rightharpoonup> jsval) \<Rightarrow> serie list \<Rightarrow> sink_call list" where
  "barUpdates pts ss =
     concat (map (\<lambda>s. case pts (serie_id s) of None \<Rightarrow> []
                       | Some p \<Rightarrow> [UpdateLast (serie_id s) p]) ss)"

definition updateBar :: "(string \<rightharpoonup> jsval) \<Rightarrow> controller \<Rightarrow> controller" where
  "updateBar pts c = c\<lparr>sinkCalls := sinkCalls c @ barUpdates pts (activeSeries c)\<rparr>"

text \<open>\<^verbatim>\<open>createRenderer(firstBarTimestamp, series)\<close>: an empty Renderer to which the
  (selected) active series are bound; binding sets their adapters.\<close>

fun bindAll :: "transpiler \<Rightarrow> string list option \<Rightarrow> serie list \<Rightarrow> renderer \<Rightarrow> serie list \<times> renderer" where
  "bindAll tr flt [] r = ([], r)"
| "bindAll tr flt (s # ss) r =
     (if \<not> selected flt s then (case bindAll tr flt ss r of (ss1, r1) \<Rightarrow> (s # ss1, r1))
      else case bindSerie tr s r of
             (s1, r1) \<Rightarrow> (case bindAll tr flt ss r1 of (ss1, r2) \<Rightarrow> (s1 # ss1, r2)))"

definition createRenderer ::
  "transpiler \<Rightarrow> real option \<Rightarrow> string list option \<Rightarrow> controller \<Rightarrow> renderer \<times> controller" where
  "createRenderer tr ts flt c =
     (case bindAll tr flt (activeSeries c)
             \<lparr>r_timestamp = ts,
              bar = \<lparr>vbuy = 0, vsell = 0, cbuy = 0, csell = 0, lbuy = 0, lsell = 0,
                     bar_empty = None, hasData = None\<rparr>,
              sources = [], exchanges = None, series = Map.empty\<rparr> of
        (ss, r) \<Rightarrow> (r, c\<lparr>activeSeries := ss\<rparr>))"


subsection \<open>Folding live trades\<close>

text \<open>The dynamic fields \<^verbatim>\<open>'v' + side\<close>, \<^verbatim>\<open>'c' + side\<close> and \<^verbatim>\<open>'l' + side\<close> of a bar.\<close>

definition addVolume :: "side \<Rightarrow> real \<Rightarrow> 'a bar_scheme \<Rightarrow> 'a bar_scheme" where
  "addVolume sd a b = (case sd of Buy \<Rightarrow> b\<lparr>vbuy := vbuy b + a\<rparr> | Sell \<Rightarrow> b\<lparr>vsell := vsell b + a\<rparr>)"

definition addCount :: "side \<Rightarrow> 'a bar_scheme \<Rightarrow> 'a bar_scheme" where
  "addCount sd b = (case sd of Buy \<Rightarrow> b\<lparr>cbuy := cbuy b + 1\<rparr> | Sell \<Rightarrow> b\<lparr>csell := csell b + 1\<rparr>)"

definition addLiquidation :: "side \<Rightarrow> real \<Rightarrow> 'a bar_scheme \<Rightarrow> 'a bar_scheme" where
  "addLiquidation sd a b = (case sd of Buy \<Rightarrow> b\<lparr>lbuy := lbuy b + a\<rparr> | Sell \<Rightarrow> b\<lparr>lsell := lsell b + a\<rparr>)"

text \<open>
  The bar created for a source seen for the first time: \<^verbatim>\<open>{ exchange, close: +price }\<close>,
  then \<^verbatim>\<open>resetBar\<close>, which assigns every other field written below.
\<close>

definition newSourceBar :: "string \<Rightarrow> real \<Rightarrow> source_bar" where
  "newSourceBar ex price =
     resetBar \<lparr>vbuy = 0, vsell = 0, cbuy = 0, csell = 0, lbuy = 0, lsell = 0,
               bar_empty = None, hasData = None,
               exchange = ex, pair = None, bar_timestamp = None,
               bar_open = price, high = price, low = price, close = price\<rparr>"

text \<open>
  The second half of the body of the loop of \<^verbatim>\<open>renderRealtimeTrades\<close>: the trade is
  folded into the bar of its source and, when the source is active, into the combined bar.
\<close>

definition foldTrade :: "settings \<Rightarrow> trade \<Rightarrow> renderer \<Rightarrow> renderer" where
  "foldTrade cfg t r =
     (let identifier = t_exchange t @ t_pair t;
          amount = t_price t * t_size t;
          b0 = (case map_of (sources r) identifier of
                  None \<Rightarrow> newSourceBar (t_exchange t) (t_price t)
                | Some b \<Rightarrow> b);
          b1 = b0\<lparr>bar_empty := Some False\<rparr>;
          isActive = activeExchanges cfg identifier
      in if t_liquidation t
         then r\<lparr>sources := setKey identifier (addLiquidation (t_side t) amount b1) (sources r),
                bar := (if isActive
                        then (addLiquidation (t_side t) amount (bar r))\<lparr>bar_empty := Some False\<rparr>
                        else bar r)\<rparr>
         else (let b2 = b1\<lparr>high := max (high b1) (t_price t), low := min (low b1) (t_price t),
                          close := t_price t\<rparr>;
                   b3 = addVolume (t_side t) amount (addCount (t_side t) b2)
               in r\<lparr>sources := setKey identifier b3 (sources r),
                    bar := (if isActive
                            then (addCount (t_side t) (addVolume (t_side t) amount (bar r)))
                                   \<lparr>bar_empty := Some False\<rparr>
                            else bar r)\<rparr>))"

text \<open>The bucket of a trade: \<^verbatim>\<open>Math.floor(timestamp / 1000 / timeframe) * timeframe\<close>.\<close>

definition bucket :: "settings \<Rightarrow> trade \<Rightarrow> real" where
  "bucket cfg t = of_int \<lfloor>t_timestamp t / 1000 / timeframe cfg\<rfloor> * timeframe cfg"

text \<open>Comparisons with a timestamp that may be \<^verbatim>\<open>undefined\<close> are false.\<close>

definition ltOpt :: "real option \<Rightarrow> real option \<Rightarrow> bool" where
  "ltOpt a b = (case (a, b) of (Some x, Some y) \<Rightarrow> x < y | _ \<Rightarrow> False)"

text \<open>
  The first half of the body of the loop: when there is no live Renderer one is created
  for the trade's bucket; when the live Renderer's bucket is older, the bucket is closed
  (its points are computed when the combined bar's \<^verbatim>\<open>empty\<close> flag is not set) and
  \<^verbatim>\<open>nextBar\<close> moves the Renderer to the trade's bucket. The state is the Controller and
  \<^verbatim>\<open>formatedBars\<close>. The statements that store the closed bars in the active chunk, move
  \<^verbatim>\<open>renderedRange\<close> and call \<^verbatim>\<open>preventPan\<close> write to the cache, the rendered range and
  a flag only, none of which is read here; they are left out and taken to complete.
\<close>

definition advanceLive ::
  "transpiler \<Rightarrow> settings \<Rightarrow> real \<Rightarrow> controller \<times> (string \<rightharpoonup> jsval) list
     \<Rightarrow> error + (renderer \<times> controller \<times> (string \<rightharpoonup> jsval) list)" where
  "advanceLive tr cfg ts st =
     (case st of (c, fb) \<Rightarrow>
       (case activeRenderer c of
          None \<Rightarrow> (case createRenderer tr (Some ts) None c of (r, c1) \<Rightarrow> Inr (r, c1, fb))
        | Some r \<Rightarrow>
            if ltOpt (r_timestamp r) (Some ts)
            then andThen (if \<not> flag (bar_empty (bar r))
                          then andThen (computeBar cfg True r None c)
                                 (\<lambda>(pts, r1, c1). Inr (r1, c1, fb @ [pts]))
                          else Inr (r, c, fb))
                   (\<lambda>(r1, c1, fb1).
                      Inr (nextBar (map serie_id (activeSeries c1)) (Some ts) r1, c1, fb1))
            else Inr (r, c, fb)))"

text \<open>The whole body of the loop, for one trade.\<close>

definition renderTrade ::
  "transpiler \<Rightarrow> settings \<Rightarrow> trade \<Rightarrow> controller \<times> (string \<rightharpoonup> jsval) list
     \<Rightarrow> error + (controller \<times> (string \<rightharpoonup> jsval) list)" where
  "renderTrade tr cfg t st =
     andThen (advanceLive tr cfg (bucket cfg t) st)
       (\<lambda>(r, c, fb). Inr (c\<lparr>activeRenderer := Some (foldTrade cfg t r)\<rparr>, fb))"

fun tradesLoop ::
  "transpiler \<Rightarrow> settings \<Rightarrow> trade list \<Rightarrow> controller \<times> (string \<rightharpoonup> jsval) list
     \<Rightarrow> error + (controller \<times> (string \<rightharpoonup> jsval) list)" where
  "tradesLoop tr cfg [] st = Inr st"
| "tradesLoop tr cfg (t # ts) st =
     (case renderTrade tr cfg t st of
        Inl e \<Rightarrow> Inl e
      | Inr st1 \<Rightarrow> tradesLoop tr cfg ts st1)"

text \<open>\<^verbatim>\<open>renderRealtimeTrades(trades)\<close>: the loop, then the points of the bucket in
  progress, then one \<^verbatim>\<open>updateBar\<close> per computed bar.\<close>

definition renderRealtimeTrades ::
  "transpiler \<Rightarrow> settings \<Rightarrow> trade list \<Rightarrow> controller \<Rightarrow> error + controller" where
  "renderRealtimeTrades tr cfg trades c =
     (if trades = [] then Inr c
      else andThen (tradesLoop tr cfg trades (c, []))
        (\<lambda>(c1, fb).
           case activeRenderer c1 of
             None \<Rightarrow> Inl (TypeError ''Cannot read properties of undefined (reading 'bar')'')
           | Some r \<Rightarrow>
               andThen (if \<not> flag (bar_empty (bar r))
                        then andThen (computeBar cfg True r None c1)
                               (\<lambda>(pts, r1, c2). Inr (c2, fb @ [pts]))
                        else Inr (c1, fb))
                 (\<lambda>(c2, fb2). Inr (foldl (\<lambda>c' pts. updateBar pts c') c2 fb2))))"


subsection \<open>Replaying cached bars\<close>

text \<open>\<^verbatim>\<open>cloneSourceBar(sourceBar, timestamp)\<close>: the copy has no \<^verbatim>\<open>empty\<close> flag; a falsy
  timestamp (none given, or 0) leaves the bar's own.\<close>

definition cloneSourceBar :: "source_bar \<Rightarrow> real option \<Rightarrow> source_bar" where
  "cloneSourceBar b ts =
     \<lparr>vbuy = vbuy b, vsell = vsell b, cbuy = cbuy b, csell = csell b,
      lbuy = lbuy b, lsell = lsell b, bar_empty = None, hasData = None,
      exchange = exchange b, pair = pair b,
      bar_timestamp = (if truthy ts then ts else bar_timestamp b),
      bar_open = bar_open b, high = high b, low = low b, close = close b\<rparr>"

text \<open>\<^verbatim>\<open>clearChart()\<close> and \<^verbatim>\<open>replaceData(computedSeries)\<close>, as calls on the chart's series.\<close>

definition clearChart :: "controller \<Rightarrow> controller" where
  "clearChart c = c\<lparr>sinkCalls := sinkCalls c @ map (\<lambda>s. SetData (serie_id s) []) (activeSeries c)\<rparr>"

definition replaceData :: "(string \<rightharpoonup> jsval list) \<Rightarrow> controller \<Rightarrow> controller" where
  "replaceData computedSeries c =
     c\<lparr>sinkCalls := sinkCalls c @
          concat (map (\<lambda>s. case computedSeries (serie_id s) of
                              None \<Rightarrow> []
                            | Some ps \<Rightarrow> (if ps = [] then [] else [SetData (serie_id s) ps]))
                      (activeSeries c))\<rparr>"

text \<open>
  The state of the loop of \<^verbatim>\<open>renderBars\<close>: \<^verbatim>\<open>temporaryRenderer\<close> (undefined at first),
  \<^verbatim>\<open>computedSeries\<close> and the Controller.
\<close>

type_synonym replay_state = "renderer option \<times> (string \<rightharpoonup> jsval list) \<times> controller"

text \<open>The points of the temporary Renderer's bucket are computed and appended to
  \<^verbatim>\<open>computedSeries\<close> when its combined bar has data.\<close>

definition pushPoints :: "(string \<rightharpoonup> jsval) \<Rightarrow> (string \<rightharpoonup> jsval list) \<Rightarrow> (string \<rightharpoonup> jsval list)" where
  "pushPoints pts computedSeries =
     (\<lambda>sid. case pts sid of
               None \<Rightarrow> computedSeries sid
             | Some p \<Rightarrow> Some ((case computedSeries sid of None \<Rightarrow> [] | Some ps \<Rightarrow> ps) @ [p]))"

definition flushBar :: "settings \<Rightarrow> string list option \<Rightarrow> replay_state \<Rightarrow> error + replay_state" where
  "flushBar cfg flt st =
     (case st of (temp, computedSeries, c) \<Rightarrow>
       (case temp of
          None \<Rightarrow> Inr st
        | Some r \<Rightarrow>
            if flag (hasData (bar r))
            then andThen (computeBar cfg False r flt c)
                   (\<lambda>(pts, r1, c1). Inr (Some r1, pushPoints pts computedSeries, c1))
            else Inr st))"

text \<open>
  One iteration of the loop for a cached bar: a bar that starts a new bucket closes the
  previous one and advances (or creates) the temporary Renderer; a bar of an inactive
  source is skipped; a bar of an active source is added to the combined bar and then
  stored in \<^verbatim>\<open>temporaryRenderer.exchanges\<close>, which throws when that property is undefined.
  In a replay the activity of a source is looked up under \<^verbatim>\<open>bar.exchange\<close>.
\<close>

definition replayBar ::
  "transpiler \<Rightarrow> settings \<Rightarrow> string list option \<Rightarrow> source_bar \<Rightarrow> replay_state \<Rightarrow> error + replay_state" where
  "replayBar tr cfg flt b st =
     andThen
       (case st of (temp, computedSeries, c) \<Rightarrow>
         (case temp of
            None \<Rightarrow>
              (case createRenderer tr (bar_timestamp b) flt c of
                 (r, c1) \<Rightarrow> Inr (r, computedSeries, c1))
          | Some r \<Rightarrow>
              if ltOpt (r_timestamp r) (bar_timestamp b)
              then andThen (flushBar cfg flt st)
                     (\<lambda>(temp1, computedSeries1, c1).
                        Inr (nextBar (map serie_id (activeSeries c1)) (bar_timestamp b)
                               (case temp1 of Some r1 \<Rightarrow> r1 | None \<Rightarrow> r),
                             computedSeries1, c1))
              else Inr (r, computedSeries, c)))
       (\<lambda>(r, computedSeries, c).
          if \<not> activeExchanges cfg (exchange b) then Inr (Some r, computedSeries, c)
          else (let r1 = r\<lparr>bar := (bar r)\<lparr>hasData := Some True,
                                            vbuy := vbuy (bar r) + vbuy b,
                                            vsell := vsell (bar r) + vsell b,
                                            cbuy := cbuy (bar r) + cbuy b,
                                            csell := csell (bar r) + csell b,
                                            lbuy := lbuy (bar r) + lbuy b,
                                            lsell := lsell (bar r) + lsell b\<rparr>\<rparr>
                in case exchanges r1 of
                     None \<Rightarrow> Inl (TypeError ''Cannot set properties of undefined'')
                   | Some ex \<Rightarrow>
                       Inr (Some (r1\<lparr>exchanges :=
                                      Some (setKey (exchange b) (cloneSourceBar b None) ex)\<rparr>),
                            computedSeries, c)))"

fun replayLoop ::
  "transpiler \<Rightarrow> settings \<Rightarrow> string list option \<Rightarrow> source_bar list \<Rightarrow> replay_state \<Rightarrow> error + replay_state" where
  "replayLoop tr cfg flt [] st = flushBar cfg flt st"
| "replayLoop tr cfg flt (b # bs) st =
     (case replayBar tr cfg flt b st of
        Inl e \<Rightarrow> Inl e
      | Inr st1 \<Rightarrow> replayLoop tr cfg flt bs st1)"

text \<open>
  \<^verbatim>\<open>renderBars(bars, series)\<close>. After the loop the chart is cleared when all series are
  rendered, the computed points replace the series' data, and the series state of the
  temporary Renderer is copied into the live Renderer; without a live Renderer the
  temporary one becomes it. The assignments to \<^verbatim>\<open>renderedRange\<close> are left out.
\<close>

definition renderBars ::
  "transpiler \<Rightarrow> settings \<Rightarrow> source_bar list \<Rightarrow> string list option \<Rightarrow> controller \<Rightarrow> error + controller" where
  "renderBars tr cfg bars flt c =
     (if bars = [] then Inr c
      else andThen (replayLoop tr cfg flt bars (None, Map.empty, c))
        (\<lambda>(temp, computedSeries, c1).
           let c2 = (if flt = None then clearChart c1 else c1);
               c3 = replaceData computedSeries c2
           in case temp of
                None \<Rightarrow> Inl (TypeError ''Cannot read properties of undefined (reading 'series')'')
              | Some r \<Rightarrow>
                  (case activeRenderer c3 of
                     Some ar \<Rightarrow> Inr (c3\<lparr>activeRenderer := Some (ar\<lparr>series := series ar ++ series r\<rparr>)\<rparr>)
                   | None \<Rightarrow> Inr (c3\<lparr>activeRenderer := Some r\<rparr>))))"

subsection \<open>Selecting the chunks to display\<close>

record time_range =
  range_from :: real
  range_to :: real

text \<open>\<^verbatim>\<open>getVisibleRange()\<close>: the chart's visible range, moved by the timezone offset.\<close>

definition getVisibleRange :: "settings \<Rightarrow> time_range option \<Rightarrow> time_range option" where
  "getVisibleRange cfg chartRange =
     map_option (\<lambda>vr. vr\<lparr>range_from := range_from vr - timezoneOffset cfg / 1000,
                         range_to := range_to vr - timezoneOffset cfg / 1000\<rparr>) chartRange"

text \<open>
  The variable \<^verbatim>\<open>from\<close> of \<^verbatim>\<open>renderVisibleChunks\<close>: \<^verbatim>\<open>null\<close> without a visible range;
  else the start of the visible range, moved back by the (negative) start of the visible
  logical range, in buckets, when the chart shows empty space before its first bar.
\<close>

definition visibleFrom :: "settings \<Rightarrow> time_range option \<Rightarrow> time_range option \<Rightarrow> error + real option" where
  "visibleFrom cfg visibleRange visibleLogicalRange =
     (case visibleRange of
        None \<Rightarrow> Inr None
      | Some vr \<Rightarrow>
          (case visibleLogicalRange of
             None \<Rightarrow> Inl (TypeError ''Cannot read properties of null (reading 'from')'')
           | Some lr \<Rightarrow>
               if range_from lr < 0
               then Inr (Some (range_from vr + timeframe cfg * range_from lr))
               else Inr (Some (range_from vr))))"

text \<open>The callback of \<^verbatim>\<open>filter\<close>: it sets \<^verbatim>\<open>rendered\<close> on every chunk.\<close>

definition markChunk :: "settings \<Rightarrow> real option \<Rightarrow> chunk \<Rightarrow> chunk" where
  "markChunk cfg from ch =
     ch\<lparr>c_rendered := (case from of None \<Rightarrow> True
                        | Some f \<Rightarrow> c_to ch > f - timeframe cfg * 20)\<rparr>"

text \<open>The chunks after the marking and the bars of the selected ones, concatenated.\<close>

definition selectChunks ::
  "settings \<Rightarrow> time_range option \<Rightarrow> time_range option \<Rightarrow> chunk list
     \<Rightarrow> error + (chunk list \<times> source_bar list)" where
  "selectChunks cfg visibleRange visibleLogicalRange chs =
     andThen (visibleFrom cfg visibleRange visibleLogicalRange)
       (\<lambda>from. let chs1 = map (markChunk cfg from) chs
                in Inr (chs1, concat (map c_bars (filter c_rendered chs1))))"

text \<open>\<^verbatim>\<open>renderVisibleChunks()\<close>; \<open>hasChart\<close> says that \<^verbatim>\<open>this.chartInstance\<close> is set, and
  the two ranges are what the chart's time scale reports.\<close>

definition renderVisibleChunks ::
  "transpiler \<Rightarrow> settings \<Rightarrow> bool \<Rightarrow> time_range option \<Rightarrow> time_range option \<Rightarrow> controller
     \<Rightarrow> error + controller" where
  "renderVisibleChunks tr cfg hasChart chartRange visibleLogicalRange c =
     (if chunks c = [] \<or> \<not> hasChart then Inr c
      else andThen (selectChunks cfg (getVisibleRange cfg chartRange) visibleLogicalRange (chunks c))
             (\<lambda>(chs1, bars). renderBars tr cfg bars None (c\<lparr>chunks := chs1\<rparr>)))"

section \<open>Predicates and scenarios\<close>

text \<open>
  A counter over a window of 10 seconds in two slots of 5 seconds, fed the value 1 once a
  second from second 1 to second 10: the second slot opens at second 7 and fills the
  window. The slot timers are due at seconds 11 and 17.
\<close>

definition steadyCounter :: counter where
  "steadyCounter = new_counter (Some 10000) 60000 5000 None"

definition steadyUpdates :: "real counter_event list" where
  "steadyUpdates = map (\<lambda>k. Update (1000 * real k) (1000 * real k) 1) [1, 2, 3, 4, 5, 6, 7, 8, 9, 10]"

text \<open>Two more updates at seconds 11 and 12, after the first slot timer has fired.\<close>

definition laterUpdates :: "real counter_event list" where
  "laterUpdates = [Update 11000 11000 1, Update 12000 12000 1]"

text \<open>
  A Controller without series and without a live Renderer, buckets of 60 seconds, and one
  source, exchange \<open>A\<close> with pair \<open>btcusd\<close>, marked active (under its identifier
  \<^verbatim>\<open>exchange + pair\<close>, which the live fold looks up, and under its exchange, which the replay
  looks up). Two buys at 100 and 102 fall into bucket 0; a third at 101 opens bucket 60.
\<close>

definition noSeries :: transpiler where
  "noSeries = \<lparr>transpile = (\<lambda>s. Inl (Error ''no formula'')),
               getAdapter = (\<lambda>e r fs vs os. (Null, fs, vs)),
               updateInstructionsArgument = (\<lambda>fs. fs)\<rparr>"

definition minuteBars :: settings where
  "minuteBars = \<lparr>timeframe = 60, timezoneOffset = 0,
                 activeExchanges = (\<lambda>k. k = ''A'' \<or> k = ''Abtcusd'')\<rparr>"

definition emptyController :: controller where
  "emptyController = \<lparr>activeSeries = [], activeRenderer = None, serieErrors = [],
      serieDialog = None, enabledSeries = [], chartSeries = [], sinkCalls = [], chunks = []\<rparr>"

definition mkTrade :: "string \<Rightarrow> real \<Rightarrow> real \<Rightarrow> real \<Rightarrow> side \<Rightarrow> trade" where
  "mkTrade ex ms price sz sd =
     \<lparr>t_exchange = ex, t_pair = ''btcusd'', t_timestamp = ms, t_price = price, t_size = sz,
      t_side = sd, t_liquidation = False\<rparr>"

definition firstBucket :: "trade list" where
  "firstBucket = [mkTrade ''A'' 0 100 1 Buy, mkTrade ''A'' 10000 102 1 Buy]"

definition secondBucket :: "trade list" where
  "secondBucket = [mkTrade ''A'' 65000 101 1 Buy]"

text \<open>The bar of source \<open>A\<close> after the two trades of bucket 0.\<close>

definition barAfterFirstBucket :: source_bar where
  "barAfterFirstBucket =
     \<lparr>vbuy = 202, vsell = 0, cbuy = 2, csell = 0, lbuy = 0, lsell = 0,
      bar_empty = Some False, hasData = None, exchange = ''A'', pair = None,
      bar_timestamp = None, bar_open = 100, high = 102, low = 100, close = 102\<rparr>"

text \<open>A cached bar of source \<open>A\<close> for bucket 60, as a chunk holds it.\<close>

definition cachedBar :: source_bar where
  "cachedBar =
     \<lparr>vbuy = 101, vsell = 0, cbuy = 1, csell = 0, lbuy = 0, lsell = 0,
      bar_empty = None, hasData = None, exchange = ''A'', pair = None,
      bar_timestamp = Some 60, bar_open = 102, high = 102, low = 101, close = 101\<rparr>"

text \<open>The sum of a field over the bars of the sources that are marked active.\<close>

definition activeSum :: "(source_bar \<Rightarrow> real) \<Rightarrow> settings \<Rightarrow> renderer \<Rightarrow> real" where
  "activeSum f cfg r =
     sum_list (map (\<lambda>(k, b). if activeExchanges cfg k then f b else 0) (sources r))"

text \<open>The six sums of the combined bar agree with the bars of the active sources.\<close>

definition sumsAgree :: "settings \<Rightarrow> renderer \<Rightarrow> bool" where
  "sumsAgree cfg r =
     (vbuy (bar r) = activeSum vbuy cfg r \<and> vsell (bar r) = activeSum vsell cfg r
      \<and> cbuy (bar r) = activeSum cbuy cfg r \<and> csell (bar r) = activeSum csell cfg r
      \<and> lbuy (bar r) = activeSum lbuy cfg r \<and> lsell (bar r) = activeSum lsell cfg r)"

text \<open>The live Renderer and the Controller after the three trades: bucket 60 is current.\<close>

definition rendererAt60 :: renderer where
  "rendererAt60 =
     \<lparr>r_timestamp = Some 60,
      bar = \<lparr>vbuy = 101, vsell = 0, cbuy = 1, csell = 0, lbuy = 0, lsell = 0,
             bar_empty = Some False, hasData = Some False\<rparr>,
      sources = [(''Abtcusd'', barAfterFirstBucket\<lparr>vbuy := 303, cbuy := 3, close := 101\<rparr>)],
      exchanges = None, series = Map.empty\<rparr>"

definition liveAt60 :: controller where
  "liveAt60 = emptyController\<lparr>activeRenderer := Some rendererAt60\<rparr>"

text \<open>A trade of second 10, that is of bucket 0, arriving when bucket 60 is current;
  and a liquidation of the same source.\<close>

definition lateTrade :: trade where
  "lateTrade = mkTrade ''A'' 10000 99 1 Buy"

definition liquidationTrade :: trade where
  "liquidationTrade = (mkTrade ''A'' 70000 90 2 Sell)\<lparr>t_liquidation := True\<rparr>"

text \<open>
  The queue of an \<^verbatim>\<open>average_function\<close> instruction is consistent for the window length
  \<open>a\<close> when the count is the length of the queue and the queue holds at most \<open>a\<close>
  entries.
\<close>

definition queueInv :: "real \<Rightarrow> average_state \<Rightarrow> bool" where
  "queueInv a s =
     (avg_count s = int (length (avg_points s)) \<and> real (length (avg_points s)) \<le> a)"

text \<open>
  The next bucket advance of an instruction rounds nothing: the sum with the last output
  is a double, and so is, when an entry is evicted, the difference with that entry.
\<close>

definition exactAdvance :: "real \<Rightarrow> average_state \<Rightarrow> bool" where
  "exactAdvance a s =
     (toDouble (avg_sum s + avg_output s) = avg_sum s + avg_output s
      \<and> (if real_of_int (avg_count s + 1) > a
         then toDouble (avg_sum s + avg_output s - hd (avg_points s @ [avg_output s]))
                = avg_sum s + avg_output s - hd (avg_points s @ [avg_output s])
         else True))"

text \<open>
  Bucket advances in a row of one instruction, the adapter having written the next of the
  outputs \<open>outs\<close> to \<^verbatim>\<open>state.output\<close> before each.
\<close>

definition advances :: "real \<Rightarrow> real list \<Rightarrow> average_state \<Rightarrow> average_state" where
  "advances a outs s = foldl (\<lambda>s v. advanceAverage a (s\<lparr>avg_output := v\<rparr>)) s outs"

text \<open>The state of an instruction that has seen no bucket: an empty queue.\<close>

definition emptyAverage :: average_state where
  "emptyAverage = \<lparr>avg_points = [], avg_sum = 0, avg_count = 0, avg_output = 0\<rparr>"

text \<open>A live Renderer whose combined bar has data, with one series \<open>sma\<close> bound: a
  rolling average over 2 buckets whose queue is full (1 and 2) and whose last output is 5.\<close>

definition smaInstruction :: instruction where
  "smaInstruction =
     \<lparr>i_name = ''sma'', arg = 2,
      state = Average_function \<lparr>avg_points = [1, 2], avg_sum = 3, avg_count = 2, avg_output = 5\<rparr>\<rparr>"

definition smaData :: serie_data where
  "smaData = \<lparr>sd_value = Num 5, sd_point = Num 5, sd_functions = [smaInstruction],
              sd_variables = []\<rparr>"

definition smaRenderer :: renderer where
  "smaRenderer = rendererAt60\<lparr>series := [''sma'' \<mapsto> smaData]\<rparr>"

text \<open>
  The same series with an empty queue and a window of 2 buckets, whose output is the
  double of the literal \<^verbatim>\<open>0.1\<close> in every bucket; the live Renderer after two and after
  three bucket advances; and the state of the instruction after the third.
\<close>

definition tenth :: real where
  "tenth = toDouble (1 / 10)"

definition driftInstruction :: instruction where
  "driftInstruction =
     \<lparr>i_name = ''sma'', arg = 2,
      state = Average_function \<lparr>avg_points = [], avg_sum = 0, avg_count = 0, avg_output = tenth\<rparr>\<rparr>"

definition driftRenderer :: renderer where
  "driftRenderer = rendererAt60\<lparr>series := [''sma'' \<mapsto>
     \<lparr>sd_value = Num tenth, sd_point = Num tenth, sd_functions = [driftInstruction],
      sd_variables = []\<rparr>]\<rparr>"

definition twoCloses :: renderer where
  "twoCloses = nextBar [''sma''] (Some 180) (nextBar [''sma''] (Some 120) driftRenderer)"

definition threeCloses :: renderer where
  "threeCloses = nextBar [''sma''] (Some 240) twoCloses"

definition statesOf :: "renderer \<Rightarrow> string \<Rightarrow> instruction_state list" where
  "statesOf r sid = (case series r sid of None \<Rightarrow> [] | Some sd \<Rightarrow> map state (sd_functions sd))"

definition driftState :: average_state where
  "driftState =
     \<lparr>avg_points = [3602879701896397 / 36028797018963968, 3602879701896397 / 36028797018963968],
      avg_sum = 7205759403792795 / 36028797018963968, avg_count = 2,
      avg_output = 3602879701896397 / 36028797018963968\<rparr>"

text \<open>
  A transpiler for the two kinds of output: the formula \<open>ohlc\<close> compiles to an OHLC
  output, any other formula to a single value, without instructions or references.
\<close>

definition kindTranspiler :: transpiler where
  "kindTranspiler =
     \<lparr>transpile = (\<lambda>s. Inr \<lparr>m_output = input s,
                             m_type = (if input s = ''ohlc'' then OhlcT else ValueT),
                             m_variables = [], m_functions = [], m_references = Some []\<rparr>),
      getAdapter = (\<lambda>e r fs vs os. (Null, fs, vs)),
      updateInstructionsArgument = (\<lambda>fs. fs)\<rparr>"

text \<open>An OHLC formula shown as a line, and a single-value formula shown as candlesticks.\<close>

definition ohlcAsLine :: serie where
  "ohlcAsLine = newSerie ''price'' ''line'' ''ohlc'' []"

definition valueAsCandles :: serie where
  "valueAsCandles = newSerie ''volume'' ''candlestick'' ''vbuy'' []"

text \<open>
  A cache with one chunk ending at second 8600, a visible range starting at second 10000,
  and a visible logical range starting 5 bars before the first bar of the chart.
\<close>

definition oldChunk :: chunk where
  "oldChunk = \<lparr>c_from = 8000, c_to = 8600, c_active = False, c_rendered = False,
               c_bars = [cachedBar\<lparr>bar_timestamp := Some 8580\<rparr>]\<rparr>"

definition visibleFrom10000 :: time_range where
  "visibleFrom10000 = \<lparr>range_from = 10000, range_to = 20000\<rparr>"

definition logicalFromMinus5 :: time_range where
  "logicalFromMinus5 = \<lparr>range_from = - 5, range_to = 160\<rparr>"

text \<open>The live Renderer and the Controller after the two trades of bucket 0, and the live
  Renderer after the late trade has been processed in bucket 60.\<close>

definition rendererAt0 :: renderer where
  "rendererAt0 =
     \<lparr>r_timestamp = Some 0,
      bar = \<lparr>vbuy = 202, vsell = 0, cbuy = 2, csell = 0, lbuy = 0, lsell = 0,
             bar_empty = Some False, hasData = None\<rparr>,
      sources = [(''Abtcusd'', barAfterFirstBucket)],
      exchanges = None, series = Map.empty\<rparr>"

definition liveAt0 :: controller where
  "liveAt0 = emptyController\<lparr>activeRenderer := Some rendererAt0\<rparr>"

definition rendererAfterLate :: renderer where
  "rendererAfterLate =
     \<lparr>r_timestamp = Some 60,
      bar = \<lparr>vbuy = 200, vsell = 0, cbuy = 2, csell = 0, lbuy = 0, lsell = 0,
             bar_empty = Some False, hasData = Some False\<rparr>,
      sources = [(''Abtcusd'', barAfterFirstBucket\<lparr>vbuy := 402, cbuy := 4, low := 99, close := 99\<rparr>)],
      exchanges = None, series = Map.empty\<rparr>"

text \<open>
  A live Renderer at bucket 60 with four single-value series bound, in this order:
  \<open>broken\<close>, whose adapter yields \<^verbatim>\<open>NaN\<close>; \<open>steady\<close>, a line whose adapter yields 7;
  \<open>quiet\<close>, a line whose adapter yields \<^verbatim>\<open>null\<close>; and \<open>bars\<close>, a histogram whose
  adapter yields 0.
\<close>

definition constAdapter :: "jsval \<Rightarrow> adapter" where
  "constAdapter v = (\<lambda>r fs vs os. (v, fs, vs))"

definition valueSerie :: "string \<Rightarrow> string \<Rightarrow> jsval \<Rightarrow> serie" where
  "valueSerie sid ty v =
     \<lparr>enabled = True, serie_id = sid, serie_type = ty, input = ''formula'', options = [],
      model = Some \<lparr>m_output = ''formula'', m_type = ValueT, m_variables = [], m_functions = [],
                    m_references = Some []\<rparr>,
      adapter = Some (constAdapter v), api = Some (''add'' @ capitalise ty @ ''Series'')\<rparr>"

definition freshData :: serie_data where
  "freshData = \<lparr>sd_value = Null, sd_point = Null, sd_functions = [], sd_variables = []\<rparr>"

definition fourSeries :: "serie list" where
  "fourSeries = [valueSerie ''broken'' ''line'' NaN, valueSerie ''steady'' ''line'' (Num 7),
                 valueSerie ''quiet'' ''line'' Null, valueSerie ''bars'' ''histogram'' (Num 0)]"

definition fourRenderer :: renderer where
  "fourRenderer = rendererAt60\<lparr>series :=
     [''broken'' \<mapsto> freshData, ''steady'' \<mapsto> freshData, ''quiet'' \<mapsto> freshData,
      ''bars'' \<mapsto> freshData]\<rparr>"

definition fourController :: controller where
  "fourController = emptyController\<lparr>activeSeries := fourSeries, activeRenderer := Some fourRenderer\<rparr>"

text \<open>
  The live Renderer and the Controller after \<^verbatim>\<open>computeBar\<close> has dropped \<open>broken\<close> from
  them, and a trade of bucket 120, which closes bucket 60.
\<close>

definition fourRendererAfter :: renderer where
  "fourRendererAfter = fourRenderer\<lparr>series :=
     [''steady'' \<mapsto> \<lparr>sd_value = Num 7, sd_point = Num 7, sd_functions = [], sd_variables = []\<rparr>,
      ''quiet'' \<mapsto> freshData,
      ''bars'' \<mapsto> \<lparr>sd_value = Num 0, sd_point = Num 0, sd_functions = [], sd_variables = []\<rparr>]\<rparr>"

definition fourControllerAfter :: controller where
  "fourControllerAfter =
     fourController\<lparr>activeRenderer := Some fourRendererAfter,
                    serieErrors := [(''broken'', Some ''broken is NaN'')],
                    serieDialog := Some ''broken''\<rparr>"

definition closingTrade :: trade where
  "closingTrade = mkTrade ''A'' 125000 100 1 Buy"

text \<open>
  A live Renderer at bucket 60 with three single-value series bound, in this order:
  \<open>late\<close>, whose adapter yields 1 in bucket 60 and \<^verbatim>\<open>NaN\<close> in any other bucket;
  \<open>broken\<close>, whose adapter yields \<^verbatim>\<open>NaN\<close>; and \<open>steady\<close>, whose adapter yields 7.
  Then the points of bucket 60 and the series of the live Renderer once bucket 60 is
  closed, and the live Renderer and the Controller when the loop over the batch of the
  closing trade is through: the Renderer is at bucket 120 and holds the trade.
\<close>

definition lateAdapter :: adapter where
  "lateAdapter = (\<lambda>r fs vs os. (if r_timestamp r = Some 60 then Num 1 else NaN, fs, vs))"

definition laterSeries :: "serie list" where
  "laterSeries = [(valueSerie ''late'' ''line'' (Num 1))\<lparr>adapter := Some lateAdapter\<rparr>,
                  valueSerie ''broken'' ''line'' NaN, valueSerie ''steady'' ''line'' (Num 7)]"

definition threeRenderer :: renderer where
  "threeRenderer = rendererAt60\<lparr>series :=
     [''late'' \<mapsto> freshData, ''broken'' \<mapsto> freshData, ''steady'' \<mapsto> freshData]\<rparr>"

definition threeController :: controller where
  "threeController =
     emptyController\<lparr>activeSeries := laterSeries, activeRenderer := Some threeRenderer\<rparr>"

definition pointsAt60 :: "string \<rightharpoonup> jsval" where
  "pointsAt60 = [''late'' \<mapsto> Obj [(''time'', Num 60), (''value'', Num 1)],
                 ''broken'' \<mapsto> Obj [(''time'', Num 60), (''value'', NaN)],
                 ''steady'' \<mapsto> Obj [(''time'', Num 60), (''value'', Num 7)]]"

definition closedRenderer :: renderer where
  "closedRenderer = threeRenderer\<lparr>series :=
     [''late'' \<mapsto> \<lparr>sd_value = Num 1, sd_point = Num 1, sd_functions = [], sd_variables = []\<rparr>,
      ''steady'' \<mapsto> \<lparr>sd_value = Num 7, sd_point = Num 7, sd_functions = [], sd_variables = []\<rparr>]\<rparr>"

definition laterRenderer :: renderer where
  "laterRenderer =
     foldTrade minuteBars closingTrade
       (nextBar [''late'', ''broken'', ''steady''] (Some 120) closedRenderer)"

definition laterController :: controller where
  "laterController =
     threeController\<lparr>activeRenderer := Some laterRenderer,
                     serieErrors := [(''broken'', Some ''broken is NaN'')],
                     serieDialog := Some ''broken''\<rparr>"

section \<open>Sliding-window counter: decay after the updates stop\<close>

lemma steadyCounter_filled:
  "counter_run (\<lambda>x. x) steadyCounter steadyUpdates
     = \<lparr>window = 10000, granularity = 5000, ctype = ''line'', timestamp = Some 7000,
        live = 10, stacks = [6, 4], filled = True, remaining = Some 0,
        timeouts = [11000, 17000]\<rparr>"
  by (simp add: steadyCounter_def steadyUpdates_def counter_run_def new_counter_def clear_def
      onStats_def appendStack_def addData_def)

lemma counter_run_append:
  "counter_run f c (xs @ ys) = counter_run f (counter_run f c xs) ys"
  by (simp add: counter_run_def)

text \<open>
  C4. After updates at a constant rate have filled the window and then stop, and every
  pending slot timer has fired, \<^verbatim>\<open>getValue()\<close> should be 0. In the scenario above the
  window is filled (two slots holding 6 and 4, live sum 10, two timers pending); after both
  timers have fired no slot and no timer is left, and \<^verbatim>\<open>getValue()\<close> is 6, the content of the
  first slot: \<^verbatim>\<open>shiftStack\<close> takes a slot off the live sum only through \<^verbatim>\<open>remaining\<close>,
  which is still 0 when the first slot is dropped. When the updates go on for two more
  seconds, past the first timer, and then stop, \<^verbatim>\<open>getValue()\<close> is 8 after the last timer.
\<close>

theorem counter_stuck_after_expiry:
  "filled (counter_run (\<lambda>x. x) steadyCounter steadyUpdates)
   \<and> length (timeouts (counter_run (\<lambda>x. x) steadyCounter steadyUpdates)) = 2
   \<and> stacks (counter_run (\<lambda>x. x) steadyCounter (steadyUpdates @ [Expire, Expire])) = []
   \<and> timeouts (counter_run (\<lambda>x. x) steadyCounter (steadyUpdates @ [Expire, Expire])) = []
   \<and> getValue (counter_run (\<lambda>x. x) steadyCounter (steadyUpdates @ [Expire, Expire])) = 6
   \<and> stacks (counter_run (\<lambda>x. x) steadyCounter (steadyUpdates @ Expire # laterUpdates @ [Expire])) = []
   \<and> timeouts (counter_run (\<lambda>x. x) steadyCounter (steadyUpdates @ Expire # laterUpdates @ [Expire])) = []
   \<and> getValue (counter_run (\<lambda>x. x) steadyCounter (steadyUpdates @ Expire # laterUpdates @ [Expire])) = 8"
  unfolding counter_run_append steadyCounter_filled
  by (simp add: counter_run_def laterUpdates_def shiftStack_def onStats_def addData_def getValue_def)

text \<open>The counter's own series gets no point either when the counter is shown as a
  histogram and its value is 0.\<close>

lemma counter_histogram_zero_no_point:
  "ctype c = ''histogram'' \<Longrightarrow> getValue c = 0 \<Longrightarrow> updateSerie hasSerie c = None"
  by (simp add: updateSerie_def split: option.splits)

section \<open>Advancing the live Renderer to a new bucket\<close>

lemmas live_defs = renderRealtimeTrades_def renderTrade_def advanceLive_def createRenderer_def
  computeBar_def barTime_def foldTrade_def bucket_def andThen_def newSourceBar_def resetBar_def nextBar_def
  resetRendererBar_def addVolume_def addCount_def addLiquidation_def flag_def ltOpt_def
  updateBar_def barUpdates_def

lemmas scenario_defs = firstBucket_def secondBucket_def mkTrade_def minuteBars_def
  emptyController_def noSeries_def

lemma sources_advanceSeries: "sources (foldl advanceSerie r ids) = sources r"
  by (induction ids arbitrary: r) (auto simp: advanceSerie_def split: option.splits)

lemma exchanges_advanceSeries: "exchanges (foldl advanceSerie r ids) = exchanges r"
  by (induction ids arbitrary: r) (auto simp: advanceSerie_def split: option.splits)

text \<open>\<^verbatim>\<open>nextBar\<close> never writes to \<^verbatim>\<open>renderer.sources\<close>: it resets the bars of
  \<^verbatim>\<open>renderer.exchanges\<close> only.\<close>

lemma sources_nextBar: "sources (nextBar ids ts r) = sources r"
  by (simp add: nextBar_def resetRendererBar_def sources_advanceSeries Let_def)

lemma r_timestamp_nextBar: "r_timestamp (nextBar ids ts r) = ts"
  by (simp add: nextBar_def resetRendererBar_def Let_def)

lemma live_firstBucket:
  "renderRealtimeTrades noSeries minuteBars firstBucket emptyController = Inr liveAt0"
  by (simp add: live_defs scenario_defs barAfterFirstBucket_def liveAt0_def rendererAt0_def)

text \<open>
  C2. When the live Renderer advances to a new bucket, every SourceBar it holds should
  start the bucket with open = high = low = previous close and with its volumes, counts and
  liquidation volumes at zero. After the two trades of bucket 0 the bar of source \<open>A\<close>
  has open 100, high 102, low 100, close 102, buy volume 202 and buy count 2, and
  \<^verbatim>\<open>nextBar\<close> to bucket 60 leaves it exactly so: the open is not the previous close and
  nothing is zeroed.
\<close>

theorem nextBar_keeps_source_bars:
  "renderRealtimeTrades noSeries minuteBars firstBucket emptyController = Inr liveAt0
   \<and> activeRenderer liveAt0 = Some rendererAt0
   \<and> r_timestamp rendererAt0 = Some 0
   \<and> map_of (sources rendererAt0) ''Abtcusd'' = Some barAfterFirstBucket
   \<and> r_timestamp (nextBar (map serie_id (activeSeries liveAt0)) (Some 60) rendererAt0) = Some 60
   \<and> map_of (sources (nextBar (map serie_id (activeSeries liveAt0)) (Some 60) rendererAt0)) ''Abtcusd''
       = Some barAfterFirstBucket
   \<and> bar_open barAfterFirstBucket = 100 \<and> high barAfterFirstBucket = 102
   \<and> low barAfterFirstBucket = 100 \<and> close barAfterFirstBucket = 102
   \<and> vbuy barAfterFirstBucket = 202 \<and> cbuy barAfterFirstBucket = 2"
  unfolding live_firstBucket
  by (simp add: sources_nextBar r_timestamp_nextBar)
     (simp add: liveAt0_def rendererAt0_def barAfterFirstBucket_def)

section \<open>The combined bar against the bars of the active sources\<close>

lemma live_bothBuckets:
  "renderRealtimeTrades noSeries minuteBars (firstBucket @ secondBucket) emptyController =
     Inr liveAt60"
  by (simp add: live_defs scenario_defs barAfterFirstBucket_def liveAt60_def rendererAt60_def)

lemma replay_cachedBar:
  "renderBars noSeries minuteBars [cachedBar] None emptyController
     = Inl (TypeError ''Cannot set properties of undefined'')"
  by (simp add: renderBars_def replayBar_def createRenderer_def andThen_def cachedBar_def
      minuteBars_def emptyController_def)

text \<open>
  Within a bucket the fold keeps the combined bar in agreement with the bars of the active
  sources (the active set being fixed): a fresh Renderer agrees, and folding a trade
  preserves the agreement. It is lost when a bucket is closed, as the scenario below shows.
\<close>

lemma keys_setKey:
  "map fst (setKey k v kvs) = (if k \<in> fst ` set kvs then map fst kvs else map fst kvs @ [k])"
  by (induction kvs) force+

lemma distinct_setKey:
  "distinct (map fst kvs) \<Longrightarrow> distinct (map fst (setKey k v kvs))"
  by (simp add: keys_setKey)

lemma sum_setKey_new:
  "map_of kvs k = None \<Longrightarrow>
     sum_list (map g (setKey k v kvs)) = sum_list (map g kvs) + (g (k, v) :: real)"
  by (induction kvs) (auto split: if_splits)

lemma sum_setKey_old:
  "distinct (map fst kvs) \<Longrightarrow> map_of kvs k = Some b \<Longrightarrow>
     sum_list (map g (setKey k v kvs)) = sum_list (map g kvs) - g (k, b) + (g (k, v) :: real)"
  by (induction kvs) (auto split: if_splits)

lemma activeSum_setKey:
  assumes "distinct (map fst (sources r))"
  shows "activeSum f cfg (r\<lparr>sources := setKey k v (sources r), bar := b\<rparr>)
           = activeSum f cfg r
             + (if activeExchanges cfg k
                then f v - (case map_of (sources r) k of None \<Rightarrow> 0 | Some old \<Rightarrow> f old)
                else 0)"
proof (cases "map_of (sources r) k")
  case None
  then show ?thesis
    by (simp add: activeSum_def sum_setKey_new)
next
  case (Some old)
  with assms show ?thesis
    by (simp add: activeSum_def sum_setKey_old)
qed

lemma foldTrade_sumsAgree:
  assumes "distinct (map fst (sources r))" and "sumsAgree cfg r"
  shows "sumsAgree cfg (foldTrade cfg t r)"
  using assms(2)
  by (cases "t_side t"; cases "map_of (sources r) (t_exchange t @ t_pair t)")
     (simp_all add: sumsAgree_def foldTrade_def Let_def activeSum_setKey[OF assms(1)]
        addVolume_def addCount_def addLiquidation_def newSourceBar_def resetBar_def)

lemma foldTrade_distinct:
  "distinct (map fst (sources r)) \<Longrightarrow> distinct (map fst (sources (foldTrade cfg t r)))"
  by (simp add: foldTrade_def Let_def distinct_setKey)

lemma bindAll_sources: "bindAll tr flt ss r = (ss', r') \<Longrightarrow> sources r' = sources r \<and> bar r' = bar r"
  by (induction ss arbitrary: r ss' r')
     (auto simp: bindSerie_def split: if_splits prod.splits option.splits)

lemma createRenderer_sumsAgree:
  "createRenderer tr ts flt c = (r, c') \<Longrightarrow> sumsAgree cfg r \<and> distinct (map fst (sources r))"
  by (auto simp: createRenderer_def sumsAgree_def activeSum_def split: prod.splits dest!: bindAll_sources)

lemma folds_sumsAgree:
  assumes "distinct (map fst (sources r))" and "sumsAgree cfg r"
  shows "sumsAgree cfg (foldl (\<lambda>r' t. foldTrade cfg t r') r trades)"
  using assms
  by (induction trades arbitrary: r) (simp_all add: foldTrade_sumsAgree foldTrade_distinct)

text \<open>
  C1. The combined bar's volumes, counts and liquidation volumes should equal the sums of
  those fields over the bars of the active sources, in the live fold and in the replay.
  Live: after the three buys of the active source \<open>A\<close> (two in bucket 0, one of amount
  101 in bucket 60) the combined bar of bucket 60 has buy volume 101 and buy count 1, but
  the bar of \<open>A\<close> still carries bucket 0: the sums over the active sources are 303 and 3.
  Replay: \<^verbatim>\<open>renderBars\<close> on one cached bar of the active source \<open>A\<close> throws a
  \<^verbatim>\<open>TypeError\<close> when it stores the bar in \<^verbatim>\<open>temporaryRenderer.exchanges\<close>.
\<close>

theorem combined_bar_mismatch:
  "renderRealtimeTrades noSeries minuteBars (firstBucket @ secondBucket) emptyController = Inr liveAt60
   \<and> activeRenderer liveAt60 = Some rendererAt60
   \<and> r_timestamp rendererAt60 = Some 60
   \<and> vbuy (bar rendererAt60) = 101 \<and> activeSum vbuy minuteBars rendererAt60 = 303
   \<and> cbuy (bar rendererAt60) = 1 \<and> activeSum cbuy minuteBars rendererAt60 = 3
   \<and> renderBars noSeries minuteBars [cachedBar] None emptyController
        = Inl (TypeError ''Cannot set properties of undefined'')"
  unfolding live_bothBuckets replay_cachedBar
  by (simp add: activeSum_def minuteBars_def liveAt60_def rendererAt60_def barAfterFirstBucket_def)

section \<open>The live Renderer's bucket and trades of an older bucket\<close>

lemma r_timestamp_dropSerie:
  "r_timestamp (cb_renderer (dropSerie isLive sid st)) = r_timestamp (cb_renderer st)"
  by (simp add: dropSerie_def unbindSerie_def Let_def)

lemma r_timestamp_computeSerie:
  "computeSerie isLive time s st = Inr st' \<Longrightarrow>
     r_timestamp (cb_renderer st') = r_timestamp (cb_renderer st)"
  by (auto simp: computeSerie_def andThen_def r_timestamp_dropSerie Let_def
      split: option.splits prod.splits sum.splits if_splits)

lemma r_timestamp_computeLoop:
  "computeLoop isLive time flt ss st = Inr st' \<Longrightarrow>
     r_timestamp (cb_renderer st') = r_timestamp (cb_renderer st)"
proof (induction ss arbitrary: st)
  case Nil
  then show ?case by simp
next
  case (Cons s ss)
  then show ?case
    by (auto split: if_splits sum.splits dest: r_timestamp_computeSerie)
qed

lemma r_timestamp_computeBar:
  "computeBar cfg isLive r flt c = Inr (pts, r', c') \<Longrightarrow> r_timestamp r' = r_timestamp r"
  by (auto simp: computeBar_def split: sum.splits dest: r_timestamp_computeLoop)

lemma r_timestamp_foldTrade: "r_timestamp (foldTrade cfg t r) = r_timestamp r"
  by (simp add: foldTrade_def Let_def)

lemma advanceLive_timestamp:
  assumes "activeRenderer c = Some r"
    and "advanceLive tr cfg ts (c, fb) = Inr (r', c', fb')"
  shows "\<not> ltOpt (r_timestamp r') (r_timestamp r)"
  using assms
  by (auto simp: advanceLive_def andThen_def ltOpt_def r_timestamp_nextBar
      split: if_splits sum.splits option.splits prod.splits dest: r_timestamp_computeBar)

lemma bucket_lateTrade: "bucket minuteBars lateTrade = 0"
  by (simp add: bucket_def lateTrade_def mkTrade_def minuteBars_def)

text \<open>
  C3, as stated: the live Renderer's bucket never decreases, and a trade of a bucket
  strictly older than the current one is dropped, changing no SourceBar and no CombinedBar.
  The second half fails. With bucket 60 current, the buy of second 10 (bucket 0) at price
  99 leaves the Renderer at bucket 60 but is folded into it: the bars of the sources and
  the combined bar change, the combined buy volume by 99 and the buy count by 1.
\<close>

theorem older_trade_not_dropped:
  "renderRealtimeTrades noSeries minuteBars (firstBucket @ secondBucket) emptyController = Inr liveAt60
   \<and> activeRenderer liveAt60 = Some rendererAt60
   \<and> r_timestamp rendererAt60 = Some 60
   \<and> bucket minuteBars lateTrade = 0
   \<and> renderTrade noSeries minuteBars lateTrade (liveAt60, [])
       = Inr (liveAt60\<lparr>activeRenderer := Some rendererAfterLate\<rparr>, [])
   \<and> r_timestamp rendererAfterLate = Some 60
   \<and> sources rendererAfterLate \<noteq> sources rendererAt60
   \<and> bar rendererAfterLate \<noteq> bar rendererAt60
   \<and> vbuy (bar rendererAfterLate) = vbuy (bar rendererAt60) + 99
   \<and> cbuy (bar rendererAfterLate) = cbuy (bar rendererAt60) + 1"
  unfolding live_bothBuckets bucket_lateTrade
  by (simp add: live_defs scenario_defs liveAt60_def rendererAt60_def rendererAfterLate_def
      lateTrade_def barAfterFirstBucket_def)

text \<open>
  C3, amended: for every trade processed by the live Renderer, the Renderer's bucket never
  decreases (a step that returns leaves a live Renderer whose timestamp is not below the
  previous one); and a trade of a bucket strictly older than the current one does not
  close or advance the bucket: the step is exactly the fold of the trade into the current
  bucket, which keeps the Renderer's timestamp.
\<close>

theorem older_trade_is_folded:
  assumes "activeRenderer c = Some r"
  shows "(\<forall>c' fb'. renderTrade tr cfg t (c, fb) = Inr (c', fb') \<longrightarrow>
           (\<exists>r'. activeRenderer c' = Some r' \<and> \<not> ltOpt (r_timestamp r') (r_timestamp r)))
       \<and> (\<forall>t0. r_timestamp r = Some t0 \<and> bucket cfg t < t0 \<longrightarrow>
             renderTrade tr cfg t (c, fb) = Inr (c\<lparr>activeRenderer := Some (foldTrade cfg t r)\<rparr>, fb)
             \<and> r_timestamp (foldTrade cfg t r) = Some t0)"
proof (intro conjI allI impI)
  fix c' fb'
  assume "renderTrade tr cfg t (c, fb) = Inr (c', fb')"
  then obtain r1 c1 where adv: "advanceLive tr cfg (bucket cfg t) (c, fb) = Inr (r1, c1, fb')"
    and c': "c' = c1\<lparr>activeRenderer := Some (foldTrade cfg t r1)\<rparr>"
    by (auto simp: renderTrade_def andThen_def split: sum.splits)
  from advanceLive_timestamp[OF assms adv] c'
  show "\<exists>r'. activeRenderer c' = Some r' \<and> \<not> ltOpt (r_timestamp r') (r_timestamp r)"
    by (simp add: r_timestamp_foldTrade)
next
  fix t0
  assume "r_timestamp r = Some t0 \<and> bucket cfg t < t0"
  then show "renderTrade tr cfg t (c, fb) = Inr (c\<lparr>activeRenderer := Some (foldTrade cfg t r)\<rparr>, fb)"
    using assms by (simp add: renderTrade_def advanceLive_def andThen_def ltOpt_def)
next
  fix t0
  assume "r_timestamp r = Some t0 \<and> bucket cfg t < t0"
  then show "r_timestamp (foldTrade cfg t r) = Some t0"
    by (simp add: r_timestamp_foldTrade)
qed

theorem older_trade_is_folded_witness:
  "activeRenderer liveAt60 = Some rendererAt60
   \<and> r_timestamp rendererAt60 = Some 60
   \<and> bucket minuteBars lateTrade < 60
   \<and> renderTrade noSeries minuteBars lateTrade (liveAt60, [])
       = Inr (liveAt60\<lparr>activeRenderer := Some (foldTrade minuteBars lateTrade rendererAt60)\<rparr>, [])
   \<and> r_timestamp (foldTrade minuteBars lateTrade rendererAt60) = Some 60
   \<and> (\<exists>r'. activeRenderer (liveAt60\<lparr>activeRenderer := Some (foldTrade minuteBars lateTrade rendererAt60)\<rparr>)
               = Some r'
            \<and> \<not> ltOpt (r_timestamp r') (r_timestamp rendererAt60))"
proof -
  have a: "activeRenderer liveAt60 = Some rendererAt60"
    by (simp add: liveAt60_def)
  have t: "r_timestamp rendererAt60 = Some 60 \<and> bucket minuteBars lateTrade < 60"
    by (simp add: rendererAt60_def bucket_lateTrade)
  note folded = older_trade_is_folded [OF a, of noSeries minuteBars lateTrade "[]"]
  from folded t have f: "renderTrade noSeries minuteBars lateTrade (liveAt60, [])
       = Inr (liveAt60\<lparr>activeRenderer := Some (foldTrade minuteBars lateTrade rendererAt60)\<rparr>, [])
     \<and> r_timestamp (foldTrade minuteBars lateTrade rendererAt60) = Some 60"
    by blast
  with folded have "\<exists>r'. activeRenderer (liveAt60\<lparr>activeRenderer := Some (foldTrade minuteBars lateTrade rendererAt60)\<rparr>)
               = Some r'
            \<and> \<not> ltOpt (r_timestamp r') (r_timestamp rendererAt60)"
    by blast
  with a t f show ?thesis by blast
qed

text \<open>Over a whole batch: once the live Renderer has a timestamp, the loop of
  \<^verbatim>\<open>renderRealtimeTrades\<close> never moves it back.\<close>

lemma renderTrade_timestamp:
  assumes "activeRenderer c = Some r" and "r_timestamp r = Some t0"
    and "renderTrade tr cfg t (c, fb) = Inr (c', fb')"
  shows "\<exists>r' t1. activeRenderer c' = Some r' \<and> r_timestamp r' = Some t1 \<and> t0 \<le> t1"
proof -
  from assms(3) obtain r1 c1 where adv: "advanceLive tr cfg (bucket cfg t) (c, fb) = Inr (r1, c1, fb')"
    and c': "c' = c1\<lparr>activeRenderer := Some (foldTrade cfg t r1)\<rparr>"
    by (auto simp: renderTrade_def andThen_def split: sum.splits)
  from adv assms(1,2) have "\<exists>t1. r_timestamp r1 = Some t1 \<and> t0 \<le> t1"
    by (auto simp: advanceLive_def andThen_def ltOpt_def r_timestamp_nextBar
        split: if_splits sum.splits option.splits prod.splits dest: r_timestamp_computeBar)
  with c' show ?thesis
    by (simp add: r_timestamp_foldTrade)
qed

lemma tradesLoop_timestamp:
  assumes "tradesLoop tr cfg trades (c, fb) = Inr (c', fb')"
    and "activeRenderer c = Some r" and "r_timestamp r = Some t0"
  shows "\<exists>r' t1. activeRenderer c' = Some r' \<and> r_timestamp r' = Some t1 \<and> t0 \<le> t1"
  using assms
proof (induction trades arbitrary: c fb r t0)
  case Nil
  then show ?case by auto
next
  case (Cons t trades)
  from Cons.prems(1) obtain c1 fb1 where one: "renderTrade tr cfg t (c, fb) = Inr (c1, fb1)"
    and rest: "tradesLoop tr cfg trades (c1, fb1) = Inr (c', fb')"
    by (auto split: sum.splits)
  from renderTrade_timestamp[OF Cons.prems(2,3) one] obtain r1 t1
    where r1: "activeRenderer c1 = Some r1" "r_timestamp r1 = Some t1" and le: "t0 \<le> t1"
    by blast
  from Cons.IH[OF rest r1] le show ?case
    by force
qed

section \<open>Folding a liquidation\<close>

lemma map_of_setKey: "map_of (setKey k v kvs) = (map_of kvs)(k \<mapsto> v)"
  by (induction kvs) auto

text \<open>
  C8. Folding a liquidation into a Renderer that already holds a bar for the trade's
  source adds the amount (price times size) to the liquidation volume of the trade's side
  in that bar and changes no other number of it: open, high, low, close, the volumes and
  the counts stay, and so does the liquidation volume of the other side. The bars of the
  other sources stay. The combined bar receives the same increment when the source is
  active and none otherwise; its volumes and counts stay.
\<close>

theorem liquidation_touches_only_liquidation_volume:
  assumes "t_liquidation t"
    and "map_of (sources r) (t_exchange t @ t_pair t) = Some b"
  shows "\<exists>b'. map_of (sources (foldTrade cfg t r)) (t_exchange t @ t_pair t) = Some b'
      \<and> bar_open b' = bar_open b \<and> high b' = high b \<and> low b' = low b \<and> close b' = close b
      \<and> vbuy b' = vbuy b \<and> vsell b' = vsell b \<and> cbuy b' = cbuy b \<and> csell b' = csell b
      \<and> lbuy b' = lbuy b + (if t_side t = Buy then t_price t * t_size t else 0)
      \<and> lsell b' = lsell b + (if t_side t = Sell then t_price t * t_size t else 0)
      \<and> (\<forall>k. k \<noteq> t_exchange t @ t_pair t \<longrightarrow>
            map_of (sources (foldTrade cfg t r)) k = map_of (sources r) k)
      \<and> vbuy (bar (foldTrade cfg t r)) = vbuy (bar r)
      \<and> vsell (bar (foldTrade cfg t r)) = vsell (bar r)
      \<and> cbuy (bar (foldTrade cfg t r)) = cbuy (bar r)
      \<and> csell (bar (foldTrade cfg t r)) = csell (bar r)
      \<and> lbuy (bar (foldTrade cfg t r)) = lbuy (bar r)
           + (if activeExchanges cfg (t_exchange t @ t_pair t) \<and> t_side t = Buy
              then t_price t * t_size t else 0)
      \<and> lsell (bar (foldTrade cfg t r)) = lsell (bar r)
           + (if activeExchanges cfg (t_exchange t @ t_pair t) \<and> t_side t = Sell
              then t_price t * t_size t else 0)"
  using assms
  by (cases "t_side t") (simp_all add: foldTrade_def Let_def map_of_setKey addLiquidation_def)

theorem liquidation_touches_only_liquidation_volume_witness:
  "t_liquidation liquidationTrade
   \<and> map_of (sources rendererAt60) (t_exchange liquidationTrade @ t_pair liquidationTrade)
       = Some (barAfterFirstBucket\<lparr>vbuy := 303, cbuy := 3, close := 101\<rparr>)
   \<and> (\<exists>b'. map_of (sources (foldTrade minuteBars liquidationTrade rendererAt60)) ''Abtcusd'' = Some b'
         \<and> bar_open b' = 100 \<and> high b' = 102 \<and> low b' = 100 \<and> close b' = 101
         \<and> vbuy b' = 303 \<and> vsell b' = 0 \<and> cbuy b' = 3 \<and> csell b' = 0
         \<and> lbuy b' = 0 \<and> lsell b' = 180)
   \<and> lbuy (bar (foldTrade minuteBars liquidationTrade rendererAt60)) = 0
   \<and> lsell (bar (foldTrade minuteBars liquidationTrade rendererAt60)) = 180
   \<and> vbuy (bar (foldTrade minuteBars liquidationTrade rendererAt60)) = 101"
proof -
  have l: "t_liquidation liquidationTrade"
    by (simp add: liquidationTrade_def)
  have s: "map_of (sources rendererAt60) (t_exchange liquidationTrade @ t_pair liquidationTrade)
       = Some (barAfterFirstBucket\<lparr>vbuy := 303, cbuy := 3, close := 101\<rparr>)"
    by (simp add: rendererAt60_def liquidationTrade_def mkTrade_def)
  from liquidation_touches_only_liquidation_volume [OF l s, of minuteBars] l s
  show ?thesis
    by (simp add: foldTrade_def Let_def addLiquidation_def liquidationTrade_def mkTrade_def
        minuteBars_def rendererAt60_def barAfterFirstBucket_def)
qed

section \<open>Rolling averages at a bucket close\<close>

lemma series_advanceSerie_other:
  "sid \<noteq> k \<Longrightarrow> series (advanceSerie r k) sid = series r sid"
  by (simp add: advanceSerie_def split: option.splits)

lemma series_advanceSeries_notin:
  "sid \<notin> set ids \<Longrightarrow> series (foldl advanceSerie r ids) sid = series r sid"
  by (induction ids arbitrary: r) (auto simp: series_advanceSerie_other)

lemma series_advanceSeries_in:
  assumes "distinct ids" and "sid \<in> set ids" and "series r sid = Some sd"
  shows "series (foldl advanceSerie r ids) sid =
           Some (sd\<lparr>sd_functions := map advanceFunction (sd_functions sd),
                    sd_variables := map advanceVariable (sd_variables sd)\<rparr>)"
  using assms
proof (induction ids arbitrary: r)
  case Nil
  then show ?case by simp
next
  case (Cons k ids)
  show ?case
  proof (cases "k = sid")
    case True
    with Cons.prems have "sid \<notin> set ids" by simp
    then have "series (foldl advanceSerie (advanceSerie r sid) ids) sid
                 = series (advanceSerie r sid) sid"
      by (rule series_advanceSeries_notin)
    moreover have "series (advanceSerie r sid) sid
        = Some (sd\<lparr>sd_functions := map advanceFunction (sd_functions sd),
                    sd_variables := map advanceVariable (sd_variables sd)\<rparr>)"
      using Cons.prems by (simp add: advanceSerie_def)
    ultimately show ?thesis
      using True by simp
  next
    case False
    with Cons.prems have "sid \<in> set ids" "distinct ids"
      and "series (advanceSerie r k) sid = Some sd"
      by (simp_all add: series_advanceSerie_other)
    then show ?thesis
      using Cons.IH by simp
  qed
qed

lemma series_nextBar:
  "series (nextBar ids ts r) =
     series (if \<not> flag (bar_empty (bar r)) then foldl advanceSerie r ids else r)"
  by (simp add: nextBar_def resetRendererBar_def Let_def)

lemmas double_defs = toDouble_def binade_def expUp.simps expDown.simps pow2_def roundEven_def
  Let_def

lemma advanceAverage_effect:
  shows "avg_points (advanceAverage a s)
     = (if real_of_int (avg_count s + 1) > a then tl (avg_points s @ [avg_output s])
        else avg_points s @ [avg_output s])"
  and "avg_sum (advanceAverage a s)
     = (if real_of_int (avg_count s + 1) > a
        then toDouble (toDouble (avg_sum s + avg_output s) - hd (avg_points s @ [avg_output s]))
        else toDouble (avg_sum s + avg_output s))"
  and "avg_count (advanceAverage a s)
     = (if real_of_int (avg_count s + 1) > a then avg_count s else avg_count s + 1)"
  and "avg_output (advanceAverage a s) = avg_output s"
  by (cases "avg_points s"; simp add: advanceAverage_def Let_def)+

lemma queueInv_advanceAverage:
  assumes "queueInv a s"
  shows "queueInv a (advanceAverage a s)"
  using assms
  by (cases "avg_points s") (auto simp: queueInv_def advanceAverage_def Let_def)

text \<open>
  When nothing is rounded, the running sum stays the sum of the queue.
\<close>

lemma exact_sum_advanceAverage:
  assumes "avg_sum s = sum_list (avg_points s)" and "exactAdvance a s"
  shows "avg_sum (advanceAverage a s) = sum_list (avg_points (advanceAverage a s))"
  using assms
  by (cases "avg_points s")
     (auto simp: exactAdvance_def advanceAverage_def Let_def split: if_splits)

text \<open>
  The queue stays consistent over any number of bucket advances, whatever outputs the
  adapter writes in between, and the empty queue is consistent.
\<close>

lemma queueInv_advances:
  "queueInv a s \<Longrightarrow> queueInv a (advances a outs s)"
proof (induction outs arbitrary: s)
  case Nil
  then show ?case by (simp add: advances_def)
next
  case (Cons v outs)
  from Cons.prems have "queueInv a (s\<lparr>avg_output := v\<rparr>)"
    by (simp add: queueInv_def)
  then have "queueInv a (advanceAverage a (s\<lparr>avg_output := v\<rparr>))"
    by (rule queueInv_advanceAverage)
  then have "queueInv a (advances a outs (advanceAverage a (s\<lparr>avg_output := v\<rparr>)))"
    by (rule Cons.IH)
  then show ?case by (simp add: advances_def)
qed

lemma queue_bounded_from_empty:
  "0 \<le> a \<Longrightarrow> real (length (avg_points (advances a outs emptyAverage))) \<le> a
     \<and> avg_count (advances a outs emptyAverage)
         = int (length (avg_points (advances a outs emptyAverage)))"
proof -
  assume "0 \<le> a"
  then have "queueInv a emptyAverage"
    by (simp add: queueInv_def emptyAverage_def)
  then have "queueInv a (advances a outs emptyAverage)"
    by (rule queueInv_advances)
  then show ?thesis by (simp add: queueInv_def)
qed

text \<open>
  C5, as stated: at every bucket close with data an \<^verbatim>\<open>average_function\<close> instruction
  pushes its last output and evicts the oldest entry beyond the window, so the queue never
  holds more than \<^verbatim>\<open>arg\<close> entries and the running sum always equals the sum of the
  queue. The last part fails. An instruction with a window of 2 buckets and an empty
  queue, whose output is \<^verbatim>\<open>0.1\<close> in every bucket, has after two bucket advances the queue
  \<^verbatim>\<open>[0.1, 0.1]\<close> and the sum \<^verbatim>\<open>0.2\<close>, the sum of the queue. The third advance adds
  \<^verbatim>\<open>0.1\<close>, which rounds up to \<^verbatim>\<open>0.30000000000000004\<close>, and subtracts the evicted
  \<^verbatim>\<open>0.1\<close>: the queue is again \<^verbatim>\<open>[0.1, 0.1]\<close>, within the window, and the running sum is
  \<^verbatim>\<open>0.20000000000000004\<close>, one unit in the last place above the sum of the queue.
\<close>

theorem running_sum_drifts:
  "tenth = 3602879701896397 / 36028797018963968
   \<and> statesOf twoCloses ''sma''
       = [Average_function \<lparr>avg_points = [tenth, tenth], avg_sum = 2 * tenth, avg_count = 2,
                             avg_output = tenth\<rparr>]
   \<and> statesOf threeCloses ''sma'' = [Average_function driftState]
   \<and> avg_points driftState = [tenth, tenth]
   \<and> sum_list (avg_points driftState) = 7205759403792794 / 36028797018963968
   \<and> avg_sum driftState = 7205759403792795 / 36028797018963968
   \<and> avg_sum driftState \<noteq> sum_list (avg_points driftState)"
proof -
  have t: "tenth = 3602879701896397 / 36028797018963968"
    by (simp add: tenth_def double_defs)
  have two: "statesOf twoCloses ''sma''
       = [Average_function \<lparr>avg_points = [tenth, tenth], avg_sum = 2 * tenth, avg_count = 2,
                             avg_output = tenth\<rparr>]"
    unfolding t
    by (simp add: statesOf_def twoCloses_def driftRenderer_def driftInstruction_def t
        nextBar_def advanceSerie_def advanceFunction_def advanceAverage_def
        resetRendererBar_def rendererAt60_def flag_def double_defs)
  have three: "statesOf threeCloses ''sma'' = [Average_function driftState]"
    by (simp add: statesOf_def threeCloses_def twoCloses_def driftRenderer_def
        driftInstruction_def driftState_def t
        nextBar_def advanceSerie_def advanceFunction_def advanceAverage_def
        resetRendererBar_def rendererAt60_def flag_def double_defs)
  have pts: "avg_points driftState = [tenth, tenth]"
    by (simp add: driftState_def t)
  have rest: "sum_list (avg_points driftState) = 7205759403792794 / 36028797018963968"
    "avg_sum driftState = 7205759403792795 / 36028797018963968"
    "avg_sum driftState \<noteq> sum_list (avg_points driftState)"
    by (simp_all add: driftState_def)
  from t two three pts rest show ?thesis by blast
qed

text \<open>
  C5, amended: when \<^verbatim>\<open>nextBar\<close> closes a bucket whose combined bar is not flagged empty
  (so whenever the bucket has data), every \<^verbatim>\<open>average_function\<close> instruction of a bound
  active series appends its last output to its queue, adds it to the running sum and
  increments the count; when the count then exceeds the window length \<^verbatim>\<open>arg\<close>, the oldest
  entry leaves the queue and is subtracted from the sum, and the count goes back. Both
  updates of the sum are rounded to a double. A queue that was consistent stays so: the
  count is its length and it holds at most \<^verbatim>\<open>arg\<close> entries. The running sum stays the sum
  of the queue when it was so before and this advance rounds nothing. The identifiers of
  the active series are taken distinct.
\<close>

theorem average_function_advance:
  assumes "\<not> flag (bar_empty (bar r))"
    and "distinct ids" and "sid \<in> set ids"
    and "series r sid = Some sd"
    and "i < length (sd_functions sd)"
    and "state (sd_functions sd ! i) = Average_function s"
    and "queueInv (arg (sd_functions sd ! i)) s"
  shows "\<exists>sd' s'. series (nextBar ids ts r) sid = Some sd'
      \<and> length (sd_functions sd') = length (sd_functions sd)
      \<and> arg (sd_functions sd' ! i) = arg (sd_functions sd ! i)
      \<and> state (sd_functions sd' ! i) = Average_function s'
      \<and> avg_points s' =
          (if real_of_int (avg_count s + 1) > arg (sd_functions sd ! i)
           then tl (avg_points s @ [avg_output s]) else avg_points s @ [avg_output s])
      \<and> avg_sum s' =
          (if real_of_int (avg_count s + 1) > arg (sd_functions sd ! i)
           then toDouble (toDouble (avg_sum s + avg_output s) - hd (avg_points s @ [avg_output s]))
           else toDouble (avg_sum s + avg_output s))
      \<and> avg_count s' =
          (if real_of_int (avg_count s + 1) > arg (sd_functions sd ! i)
           then avg_count s else avg_count s + 1)
      \<and> real (length (avg_points s')) \<le> arg (sd_functions sd ! i)
      \<and> avg_count s' = int (length (avg_points s'))
      \<and> (avg_sum s = sum_list (avg_points s) \<and> exactAdvance (arg (sd_functions sd ! i)) s
           \<longrightarrow> avg_sum s' = sum_list (avg_points s'))"
proof -
  let ?a = "arg (sd_functions sd ! i)"
  let ?sd' = "sd\<lparr>sd_functions := map advanceFunction (sd_functions sd),
                  sd_variables := map advanceVariable (sd_variables sd)\<rparr>"
  define s' where "s' = advanceAverage ?a s"
  have bound: "series (nextBar ids ts r) sid = Some ?sd'"
    using assms(1-4) by (simp add: series_nextBar series_advanceSeries_in)
  have len: "length (sd_functions ?sd') = length (sd_functions sd)"
    by simp
  have ar: "arg (sd_functions ?sd' ! i) = ?a"
    using assms(5,6) by (simp add: advanceFunction_def)
  have st: "state (sd_functions ?sd' ! i) = Average_function s'"
    using assms(5,6) by (simp add: advanceFunction_def s'_def)
  have pts: "avg_points s' =
          (if real_of_int (avg_count s + 1) > ?a
           then tl (avg_points s @ [avg_output s]) else avg_points s @ [avg_output s])"
    unfolding s'_def by (rule advanceAverage_effect(1))
  have sm: "avg_sum s' =
          (if real_of_int (avg_count s + 1) > ?a
           then toDouble (toDouble (avg_sum s + avg_output s) - hd (avg_points s @ [avg_output s]))
           else toDouble (avg_sum s + avg_output s))"
    unfolding s'_def by (rule advanceAverage_effect(2))
  have cnt: "avg_count s' =
          (if real_of_int (avg_count s + 1) > ?a then avg_count s else avg_count s + 1)"
    unfolding s'_def by (rule advanceAverage_effect(3))
  have inv: "queueInv ?a s'"
    unfolding s'_def using assms(7) by (rule queueInv_advanceAverage)
  have bnd: "real (length (avg_points s')) \<le> ?a"
    and cl: "avg_count s' = int (length (avg_points s'))"
    using inv by (simp_all add: queueInv_def)
  have exact: "avg_sum s = sum_list (avg_points s) \<and> exactAdvance ?a s
      \<longrightarrow> avg_sum s' = sum_list (avg_points s')"
    unfolding s'_def by (simp add: exact_sum_advanceAverage)
  from bound len ar st pts sm cnt bnd cl exact show ?thesis
    by blast
qed

theorem average_function_advance_witness:
  "\<not> flag (bar_empty (bar smaRenderer)) \<and> distinct [''sma''] \<and> ''sma'' \<in> set [''sma'']
   \<and> series smaRenderer ''sma'' = Some smaData
   \<and> state (sd_functions smaData ! 0) = Average_function \<lparr>avg_points = [1, 2], avg_sum = 3, avg_count = 2, avg_output = 5\<rparr>
   \<and> queueInv 2 \<lparr>avg_points = [1, 2], avg_sum = 3, avg_count = 2, avg_output = 5\<rparr>
   \<and> exactAdvance 2 \<lparr>avg_points = [1, 2], avg_sum = 3, avg_count = 2, avg_output = 5\<rparr>
   \<and> (\<exists>sd' s'. series (nextBar [''sma''] (Some 120) smaRenderer) ''sma'' = Some sd'
        \<and> state (sd_functions sd' ! 0) = Average_function s'
        \<and> avg_points s' = [2, 5] \<and> avg_sum s' = 7 \<and> avg_count s' = 2
        \<and> avg_sum s' = sum_list (avg_points s'))"
proof -
  let ?s = "\<lparr>avg_points = [1, 2], avg_sum = 3, avg_count = 2, avg_output = 5\<rparr>"
  have h1: "\<not> flag (bar_empty (bar smaRenderer))"
    by (simp add: smaRenderer_def rendererAt60_def flag_def)
  have h2: "distinct [''sma'']" and h3: "''sma'' \<in> set [''sma'']" by simp_all
  have h4: "series smaRenderer ''sma'' = Some smaData" by (simp add: smaRenderer_def)
  have h5: "0 < length (sd_functions smaData)" by (simp add: smaData_def)
  have h6: "state (sd_functions smaData ! 0) = Average_function ?s"
    by (simp add: smaData_def smaInstruction_def)
  have a: "arg (sd_functions smaData ! 0) = 2" by (simp add: smaData_def smaInstruction_def)
  have h7: "queueInv (arg (sd_functions smaData ! 0)) ?s"
    by (simp add: a queueInv_def)
  have d8: "toDouble 8 = 8" and d7: "toDouble 7 = 7"
    by (simp_all add: double_defs)
  have ex: "exactAdvance 2 ?s"
    by (simp add: exactAdvance_def d8 d7)
  have sm: "avg_sum ?s = sum_list (avg_points ?s)" by simp
  from average_function_advance [OF h1 h2 h3 h4 h5 h6 h7, of "Some 120"]
  obtain sd' s' where
    b: "series (nextBar [''sma''] (Some 120) smaRenderer) ''sma'' = Some sd'"
    and st: "state (sd_functions sd' ! 0) = Average_function s'"
    and p: "avg_points s' =
          (if real_of_int (avg_count ?s + 1) > arg (sd_functions smaData ! 0)
           then tl (avg_points ?s @ [avg_output ?s]) else avg_points ?s @ [avg_output ?s])"
    and su: "avg_sum s' =
          (if real_of_int (avg_count ?s + 1) > arg (sd_functions smaData ! 0)
           then toDouble (toDouble (avg_sum ?s + avg_output ?s) - hd (avg_points ?s @ [avg_output ?s]))
           else toDouble (avg_sum ?s + avg_output ?s))"
    and cn: "avg_count s' =
          (if real_of_int (avg_count ?s + 1) > arg (sd_functions smaData ! 0)
           then avg_count ?s else avg_count ?s + 1)"
    and e: "avg_sum ?s = sum_list (avg_points ?s) \<and> exactAdvance (arg (sd_functions smaData ! 0)) ?s
           \<longrightarrow> avg_sum s' = sum_list (avg_points s')"
    by blast
  from p have p': "avg_points s' = [2, 5]" by (simp add: a)
  from su have su': "avg_sum s' = 7" by (simp add: a d8 d7)
  from cn have cn': "avg_count s' = 2" by (simp add: a)
  from e sm ex have e': "avg_sum s' = sum_list (avg_points s')" by (simp add: a)
  from b st p' su' cn' e'
  have "\<exists>sd' s'. series (nextBar [''sma''] (Some 120) smaRenderer) ''sma'' = Some sd'
        \<and> state (sd_functions sd' ! 0) = Average_function s'
        \<and> avg_points s' = [2, 5] \<and> avg_sum s' = 7 \<and> avg_count s' = 2
        \<and> avg_sum s' = sum_list (avg_points s')"
    by blast
  moreover have "queueInv 2 ?s" using h7 by (simp add: a)
  ultimately show ?thesis
    using h1 h2 h3 h4 h6 ex by blast
qed

section \<open>Output kind against visual type\<close>

text \<open>
  C7. Let transpilation of a series succeed, with its references defined. If the compiled
  output kind is OHLC and the visual type is neither \<^verbatim>\<open>candlestick\<close> nor \<^verbatim>\<open>bar\<close>,
  \<^verbatim>\<open>prepareSerie\<close> succeeds and stores a model whose output expression is the compiled
  one followed by \<^verbatim>\<open>.close\<close> and whose kind is single-value. If the output kind is
  single-value and the visual type is \<^verbatim>\<open>candlestick\<close> or \<^verbatim>\<open>bar\<close>, \<^verbatim>\<open>prepareSerie\<close>
  fails, leaving the series without a model and committing the compile error for it, and
  \<^verbatim>\<open>addSerie\<close> returns without adding the series to the active series, without creating
  it in the chart and without binding it.
\<close>

theorem output_kind_against_visual_type:
  assumes "transpile tr s = Inr res" and "m_references res = Some refs"
  shows "(m_type res = OhlcT \<and> serie_type s \<noteq> ''candlestick'' \<and> serie_type s \<noteq> ''bar'' \<longrightarrow>
            prepareSerie tr s c =
              (True,
               s\<lparr>model := Some \<lparr>m_output = m_output res @ ''.close'', m_type = ValueT,
                                 m_variables = m_variables res, m_functions = m_functions res,
                                 m_references = Some refs\<rparr>\<rparr>,
               setSerieError (serie_id s) None c))
       \<and> (m_type res = ValueT \<and> (serie_type s = ''candlestick'' \<or> serie_type s = ''bar'') \<longrightarrow>
            (\<exists>c'. prepareSerie tr s c = (False, s, c')
               \<and> serieErrors c' = serieErrors c @
                    [(serie_id s, None),
                     (serie_id s, Some ''code output is a single value but ohlc object ({open, high, low, close}) was expected'')])
            \<and> (\<forall>sid inp opts. s = newSerie sid (serie_type s) inp opts \<longrightarrow>
                 (\<exists>c'. addSerie tr sid (Some (serie_type s)) inp opts c = Inr (False, c')
                    \<and> activeSeries c' = activeSeries c
                    \<and> chartSeries c' = chartSeries c
                    \<and> activeRenderer c' = activeRenderer c)))"
proof (intro conjI impI allI)
  assume "m_type res = OhlcT \<and> serie_type s \<noteq> ''candlestick'' \<and> serie_type s \<noteq> ''bar''"
  with assms show "prepareSerie tr s c =
              (True,
               s\<lparr>model := Some \<lparr>m_output = m_output res @ ''.close'', m_type = ValueT,
                                 m_variables = m_variables res, m_functions = m_functions res,
                                 m_references = Some refs\<rparr>\<rparr>,
               setSerieError (serie_id s) None c)"
    by (simp add: prepareSerie_def prepareModel_def Let_def)
next
  assume k: "m_type res = ValueT \<and> (serie_type s = ''candlestick'' \<or> serie_type s = ''bar'')"
  with assms show "\<exists>c'. prepareSerie tr s c = (False, s, c')
               \<and> serieErrors c' = serieErrors c @
                    [(serie_id s, None),
                     (serie_id s, Some ''code output is a single value but ohlc object ({open, high, low, close}) was expected'')]"
    by (auto simp: prepareSerie_def prepareModel_def setSerieError_def openSerieDialog_def
        errorMessage_def Let_def split: option.splits)
next
  fix sid inp opts
  assume k: "m_type res = ValueT \<and> (serie_type s = ''candlestick'' \<or> serie_type s = ''bar'')"
    and s: "s = newSerie sid (serie_type s) inp opts"
  from k have ne: "serie_type s \<noteq> []" by auto
  from assms k have "prepareModel tr s
      = Inl (Error ''code output is a single value but ohlc object ({open, high, low, close}) was expected'')"
    by (auto simp: prepareModel_def)
  then have p: "\<And>c0. \<exists>c'. prepareSerie tr s c0 = (False, s, c')
        \<and> activeSeries c' = activeSeries c0 \<and> chartSeries c' = chartSeries c0
        \<and> activeRenderer c' = activeRenderer c0"
    by (auto simp: prepareSerie_def setSerieError_def openSerieDialog_def Let_def split: option.splits)
  from p[of "c\<lparr>enabledSeries := enabledSeries c @ [sid]\<rparr>"] obtain c'
    where "prepareSerie tr s (c\<lparr>enabledSeries := enabledSeries c @ [sid]\<rparr>) = (False, s, c')"
      and "activeSeries c' = activeSeries c" "chartSeries c' = chartSeries c"
      "activeRenderer c' = activeRenderer c"
    by auto
  with ne s show "\<exists>c'. addSerie tr sid (Some (serie_type s)) inp opts c = Inr (False, c')
                    \<and> activeSeries c' = activeSeries c
                    \<and> chartSeries c' = chartSeries c
                    \<and> activeRenderer c' = activeRenderer c"
    by (simp add: addSerie_def Let_def)
qed


theorem output_kind_against_visual_type_witness:
  "transpile kindTranspiler ohlcAsLine
      = Inr \<lparr>m_output = ''ohlc'', m_type = OhlcT, m_variables = [], m_functions = [],
             m_references = Some []\<rparr>
   \<and> serie_type ohlcAsLine = ''line''
   \<and> prepareSerie kindTranspiler ohlcAsLine emptyController
       = (True,
          ohlcAsLine\<lparr>model := Some \<lparr>m_output = ''ohlc.close'', m_type = ValueT,
                                     m_variables = [], m_functions = [],
                                     m_references = Some []\<rparr>\<rparr>,
          setSerieError ''price'' None emptyController)
   \<and> transpile kindTranspiler valueAsCandles
      = Inr \<lparr>m_output = ''vbuy'', m_type = ValueT, m_variables = [], m_functions = [],
             m_references = Some []\<rparr>
   \<and> serie_type valueAsCandles = ''candlestick''
   \<and> (\<exists>c'. prepareSerie kindTranspiler valueAsCandles emptyController = (False, valueAsCandles, c'))
   \<and> (\<exists>c'. addSerie kindTranspiler ''volume'' (Some ''candlestick'') ''vbuy'' [] emptyController
               = Inr (False, c')
           \<and> activeSeries c' = [] \<and> chartSeries c' = [] \<and> activeRenderer c' = None)"
proof -
  let ?o = "\<lparr>m_output = ''ohlc'', m_type = OhlcT, m_variables = [], m_functions = [],
             m_references = Some []\<rparr>"
  let ?v = "\<lparr>m_output = ''vbuy'', m_type = ValueT, m_variables = [], m_functions = [],
             m_references = Some []\<rparr>"
  have o: "transpile kindTranspiler ohlcAsLine = Inr ?o"
    by (simp add: kindTranspiler_def ohlcAsLine_def newSerie_def)
  have v: "transpile kindTranspiler valueAsCandles = Inr ?v"
    by (simp add: kindTranspiler_def valueAsCandles_def newSerie_def)
  have ro: "m_references ?o = Some []" and rv: "m_references ?v = Some []"
    by simp_all
  have lo: "serie_type ohlcAsLine = ''line''" and lv: "serie_type valueAsCandles = ''candlestick''"
    by (simp_all add: ohlcAsLine_def valueAsCandles_def newSerie_def)
  have nv: "valueAsCandles = newSerie ''volume'' (serie_type valueAsCandles) ''vbuy'' []"
    by (simp add: valueAsCandles_def newSerie_def)
  from output_kind_against_visual_type [OF o ro, of emptyController] lo
  have p1: "prepareSerie kindTranspiler ohlcAsLine emptyController
       = (True,
          ohlcAsLine\<lparr>model := Some \<lparr>m_output = ''ohlc.close'', m_type = ValueT,
                                     m_variables = [], m_functions = [],
                                     m_references = Some []\<rparr>\<rparr>,
          setSerieError ''price'' None emptyController)"
    by (simp add: ohlcAsLine_def newSerie_def)
  from output_kind_against_visual_type [OF v rv, of emptyController] lv nv
  have p2: "(\<exists>c'. prepareSerie kindTranspiler valueAsCandles emptyController = (False, valueAsCandles, c'))
      \<and> (\<exists>c'. addSerie kindTranspiler ''volume'' (Some ''candlestick'') ''vbuy'' [] emptyController
               = Inr (False, c')
           \<and> activeSeries c' = [] \<and> chartSeries c' = [] \<and> activeRenderer c' = None)"
    by (simp add: emptyController_def) blast
  from o v lo lv p1 p2 show ?thesis by simp
qed

section \<open>Selecting the chunks to display\<close>

text \<open>
  C9, as stated: with a visible range, a chunk is selected exactly when its \<^verbatim>\<open>to\<close> is
  greater than the start of the range minus 20 bucket widths. With buckets of 60 seconds,
  a visible range starting at 10000 and a visible logical range starting at -5, the chunk
  ending at 8600 is selected although 8600 is not greater than 10000 - 20 * 60 = 8800: the
  start is first moved back by 5 buckets, to 9700.
\<close>

theorem chunk_selected_below_lookback:
  "selectChunks minuteBars (Some visibleFrom10000) (Some logicalFromMinus5) [oldChunk]
      = Inr ([oldChunk\<lparr>c_rendered := True\<rparr>], c_bars oldChunk)
   \<and> \<not> (c_to oldChunk > range_from visibleFrom10000 - 20 * timeframe minuteBars)"
  by (simp add: selectChunks_def visibleFrom_def markChunk_def andThen_def minuteBars_def
      visibleFrom10000_def logicalFromMinus5_def oldChunk_def)

lemma filter_markChunk:
  "filter c_rendered (map (markChunk cfg from) chs)
     = map (markChunk cfg from)
         (filter (\<lambda>ch. case from of None \<Rightarrow> True | Some f \<Rightarrow> c_to ch > f - timeframe cfg * 20) chs)"
  by (induction chs) (auto simp: markChunk_def split: option.splits)

lemma c_bars_markChunk: "c_bars (markChunk cfg from ch) = c_bars ch"
  by (simp add: markChunk_def)

text \<open>
  C9, amended: without a visible range every chunk is selected. With a visible range, a
  chunk is selected (\<^verbatim>\<open>rendered\<close> is set on it, and cleared on the others) exactly when
  its \<^verbatim>\<open>to\<close> is greater than the range start minus 20 times the bucket width, where the
  range start is the start of the visible range, moved back by the bucket width times the
  start of the visible logical range when that start is negative. The bars of the selected
  chunks, concatenated in cache order, are what \<^verbatim>\<open>renderVisibleChunks\<close> hands to
  \<^verbatim>\<open>renderBars\<close> for all series.
\<close>

theorem chunk_selection:
  "selectChunks cfg None lr chs
      = Inr (map (\<lambda>ch. ch\<lparr>c_rendered := True\<rparr>) chs, concat (map c_bars chs))
   \<and> selectChunks cfg (Some vr) (Some lr') chs
      = Inr (map (\<lambda>ch. ch\<lparr>c_rendered :=
                   (c_to ch > (if range_from lr' < 0
                               then range_from vr + timeframe cfg * range_from lr'
                               else range_from vr) - 20 * timeframe cfg)\<rparr>) chs,
             concat (map c_bars
               (filter (\<lambda>ch. c_to ch > (if range_from lr' < 0
                                          then range_from vr + timeframe cfg * range_from lr'
                                          else range_from vr) - 20 * timeframe cfg) chs)))
   \<and> renderVisibleChunks tr cfg True chartRange lr c
      = (if chunks c = [] then Inr c
         else case selectChunks cfg (getVisibleRange cfg chartRange) lr (chunks c) of
                Inl e \<Rightarrow> Inl e
              | Inr (chs1, bars) \<Rightarrow> renderBars tr cfg bars None (c\<lparr>chunks := chs1\<rparr>))"
proof (intro conjI)
  show "selectChunks cfg None lr chs
      = Inr (map (\<lambda>ch. ch\<lparr>c_rendered := True\<rparr>) chs, concat (map c_bars chs))"
    by (simp add: selectChunks_def visibleFrom_def andThen_def filter_markChunk
        c_bars_markChunk comp_def) (simp add: markChunk_def)
next
  let ?start = "if range_from lr' < 0 then range_from vr + timeframe cfg * range_from lr'
                else range_from vr"
  have v: "visibleFrom cfg (Some vr) (Some lr') = Inr (Some ?start)"
    by (simp add: visibleFrom_def)
  have m: "markChunk cfg (Some ?start) = (\<lambda>ch. ch\<lparr>c_rendered := (c_to ch > ?start - 20 * timeframe cfg)\<rparr>)"
    by (rule ext) (simp add: markChunk_def mult.commute)
  have f: "filter c_rendered (map (markChunk cfg (Some ?start)) chs)
      = map (markChunk cfg (Some ?start)) (filter (\<lambda>ch. c_to ch > ?start - 20 * timeframe cfg) chs)"
    by (simp add: filter_markChunk mult.commute)
  show "selectChunks cfg (Some vr) (Some lr') chs
      = Inr (map (\<lambda>ch. ch\<lparr>c_rendered := (c_to ch > ?start - 20 * timeframe cfg)\<rparr>) chs,
             concat (map c_bars (filter (\<lambda>ch. c_to ch > ?start - 20 * timeframe cfg) chs)))"
    unfolding selectChunks_def v andThen_def
    by (simp only: f sum.case Let_def map_map comp_def c_bars_markChunk) (simp add: m)
next
  show "renderVisibleChunks tr cfg True chartRange lr c
      = (if chunks c = [] then Inr c
         else case selectChunks cfg (getVisibleRange cfg chartRange) lr (chunks c) of
                Inl e \<Rightarrow> Inl e
              | Inr (chs1, bars) \<Rightarrow> renderBars tr cfg bars None (c\<lparr>chunks := chs1\<rparr>))"
    by (simp add: renderVisibleChunks_def andThen_def)
qed

section \<open>A series whose value is not a number\<close>


lemmas compute_defs = computeBar_def barTime_def computeSerie_def classify_def andThen_def
  dropSerie_def unbindSerie_def setSerieError_def openSerieDialog_def selected_def

lemmas four_defs = fourController_def fourRenderer_def fourSeries_def valueSerie_def
  constAdapter_def freshData_def rendererAt60_def emptyController_def minuteBars_def

lemma four_computeBar:
  "computeBar minuteBars True fourRenderer None fourController =
     Inr ([''broken'' \<mapsto> Obj [(''time'', Num 60), (''value'', NaN)],
           ''steady'' \<mapsto> Obj [(''time'', Num 60), (''value'', Num 7)]],
          fourRenderer\<lparr>series := [''steady'' \<mapsto> \<lparr>sd_value = Num 7, sd_point = Num 7, sd_functions = [], sd_variables = []\<rparr>,
             ''quiet'' \<mapsto> freshData, ''bars'' \<mapsto> \<lparr>sd_value = Num 0, sd_point = Num 0, sd_functions = [], sd_variables = []\<rparr>]\<rparr>,
          fourController\<lparr>activeRenderer := Some (fourRenderer\<lparr>series := [''steady'' \<mapsto> \<lparr>sd_value = Num 7, sd_point = Num 7, sd_functions = [], sd_variables = []\<rparr>,
             ''quiet'' \<mapsto> freshData, ''bars'' \<mapsto> \<lparr>sd_value = Num 0, sd_point = Num 0, sd_functions = [], sd_variables = []\<rparr>]\<rparr>),
             serieErrors := [(''broken'', Some ''broken is NaN'')], serieDialog := Some ''broken''\<rparr>)"
  by (simp add: compute_defs four_defs)


text \<open>
  C6. A bound series whose adapter yields \<^verbatim>\<open>NaN\<close> on a closed bucket should be unbound
  from the live Renderer and reported, while every other bound series is still evaluated
  for that bucket: one such series should never abort the computation of the rest. In
  the \<^verbatim>\<open>computeBar\<close> that finds the \<^verbatim>\<open>NaN\<close> of \<open>broken\<close>, the series is unbound, the
  error is committed and the loop goes on to \<open>steady\<close>, \<open>quiet\<close> and \<open>bars\<close>. But
  \<open>broken\<close> stays among the active series, and \<^verbatim>\<open>computeBar\<close> does not skip an active
  series without data in the Renderer, as \<^verbatim>\<open>nextBar\<close> does: the next \<^verbatim>\<open>computeBar\<close> on
  the live Renderer throws at \<open>broken\<close>. So the batch of trades that closes the bucket
  throws in the \<^verbatim>\<open>computeBar\<close> that ends it, before any point, also of the closed
  bucket, is sent to the chart. With the series \<open>late\<close>, \<open>broken\<close> and \<open>steady\<close>, that
  last \<^verbatim>\<open>computeBar\<close> of the batch runs with \<open>late\<close> and \<open>steady\<close> bound and \<open>broken\<close>
  unbound: the adapter of \<open>late\<close> yields \<^verbatim>\<open>NaN\<close>, \<open>late\<close> is dropped, and the call throws
  at \<open>broken\<close> without evaluating the bound series \<open>steady\<close>.
\<close>

theorem NaN_serie_aborts_computation:
  "computeBar minuteBars True fourRenderer None fourController =
     Inr ([''broken'' \<mapsto> Obj [(''time'', Num 60), (''value'', NaN)],
           ''steady'' \<mapsto> Obj [(''time'', Num 60), (''value'', Num 7)]],
          fourRendererAfter, fourControllerAfter)
   \<and> activeSeries fourControllerAfter = fourSeries
   \<and> series fourRendererAfter ''broken'' = None
   \<and> computeBar minuteBars True fourRendererAfter None fourControllerAfter
        = Inl (TypeError ''Cannot read properties of undefined (reading 'functions')'')
   \<and> renderRealtimeTrades noSeries minuteBars [closingTrade] fourController
        = Inl (TypeError ''Cannot read properties of undefined (reading 'functions')'')
   \<and> tradesLoop noSeries minuteBars [closingTrade] (threeController, [])
        = Inr (laterController, [pointsAt60])
   \<and> map serie_id (activeSeries laterController) = [''late'', ''broken'', ''steady'']
   \<and> series laterRenderer ''late''
        = Some \<lparr>sd_value = Num 1, sd_point = Num 1, sd_functions = [], sd_variables = []\<rparr>
   \<and> lateAdapter laterRenderer [] [] [] = (NaN, [], [])
   \<and> series laterRenderer ''broken'' = None
   \<and> series laterRenderer ''steady''
        = Some \<lparr>sd_value = Num 7, sd_point = Num 7, sd_functions = [], sd_variables = []\<rparr>
   \<and> computeBar minuteBars True laterRenderer None laterController
        = Inl (TypeError ''Cannot read properties of undefined (reading 'functions')'')
   \<and> renderRealtimeTrades noSeries minuteBars [closingTrade] threeController
        = Inl (TypeError ''Cannot read properties of undefined (reading 'functions')'')"
proof -
  note later_defs = laterController_def laterRenderer_def closedRenderer_def threeController_def
    threeRenderer_def laterSeries_def lateAdapter_def pointsAt60_def closingTrade_def
  have first: "computeBar minuteBars True fourRenderer None fourController =
     Inr ([''broken'' \<mapsto> Obj [(''time'', Num 60), (''value'', NaN)],
           ''steady'' \<mapsto> Obj [(''time'', Num 60), (''value'', Num 7)]],
          fourRendererAfter, fourControllerAfter)"
    unfolding fourRendererAfter_def fourControllerAfter_def by (rule four_computeBar)
  have kept: "activeSeries fourControllerAfter = fourSeries"
    by (simp add: fourControllerAfter_def fourController_def)
  have unbound: "series fourRendererAfter ''broken'' = None"
    by (simp add: fourRendererAfter_def)
  have nxt: "computeBar minuteBars True fourRendererAfter None fourControllerAfter
        = Inl (TypeError ''Cannot read properties of undefined (reading 'functions')'')"
    by (simp add: fourRendererAfter_def fourControllerAfter_def compute_defs four_defs)
  have batch: "renderRealtimeTrades noSeries minuteBars [closingTrade] fourController
        = Inl (TypeError ''Cannot read properties of undefined (reading 'functions')'')"
    by (simp add: closingTrade_def live_defs compute_defs four_defs mkTrade_def
        advanceSerie_def Let_def barAfterFirstBucket_def)
  have loop: "tradesLoop noSeries minuteBars [closingTrade] (threeController, [])
        = Inr (laterController, [pointsAt60])"
    by (simp add: later_defs live_defs compute_defs four_defs mkTrade_def
        advanceSerie_def Let_def barAfterFirstBucket_def)
  have ids: "map serie_id (activeSeries laterController) = [''late'', ''broken'', ''steady'']"
    by (simp add: laterController_def threeController_def laterSeries_def valueSerie_def)
  have ser: "series laterRenderer = series closedRenderer"
    by (simp add: laterRenderer_def foldTrade_def Let_def series_nextBar closedRenderer_def
        threeRenderer_def rendererAt60_def flag_def advanceSerie_def)
  have bnd: "series laterRenderer ''late''
        = Some \<lparr>sd_value = Num 1, sd_point = Num 1, sd_functions = [], sd_variables = []\<rparr>"
    "series laterRenderer ''broken'' = None"
    "series laterRenderer ''steady''
        = Some \<lparr>sd_value = Num 7, sd_point = Num 7, sd_functions = [], sd_variables = []\<rparr>"
    by (simp_all add: ser closedRenderer_def)
  have ts: "r_timestamp laterRenderer = Some 120"
    by (simp add: laterRenderer_def r_timestamp_foldTrade r_timestamp_nextBar)
  have nan: "lateAdapter laterRenderer [] [] [] = (NaN, [], [])"
    by (simp add: lateAdapter_def ts)
  have later: "computeBar minuteBars True laterRenderer None laterController
        = Inl (TypeError ''Cannot read properties of undefined (reading 'functions')'')"
    by (simp add: later_defs live_defs compute_defs four_defs mkTrade_def
        advanceSerie_def Let_def barAfterFirstBucket_def)
  have batch3: "renderRealtimeTrades noSeries minuteBars [closingTrade] threeController
        = Inl (TypeError ''Cannot read properties of undefined (reading 'functions')'')"
    by (simp add: later_defs live_defs compute_defs four_defs mkTrade_def
        advanceSerie_def Let_def barAfterFirstBucket_def)
  from first kept unbound nxt batch loop ids bnd nan later batch3 show ?thesis by blast
qed

section \<open>Series without a point for a bucket\<close>

lemma computeSerie_frame:
  assumes "computeSerie isLive time x st = Inr st1" and "k \<noteq> serie_id x"
  shows "series (cb_renderer st1) k = series (cb_renderer st) k"
    and "cb_points st1 k = cb_points st k"
  using assms
  by (auto simp: computeSerie_def andThen_def dropSerie_def unbindSerie_def Let_def
      split: option.splits prod.splits sum.splits if_splits)

lemma computeLoop_frame:
  assumes "computeLoop isLive time flt ss st = Inr st'" and "k \<notin> serie_id ` set ss"
  shows "series (cb_renderer st') k = series (cb_renderer st) k \<and> cb_points st' k = cb_points st k"
  using assms
proof (induction ss arbitrary: st)
  case Nil
  then show ?case by simp
next
  case (Cons x xs)
  then show ?case
    by (auto split: if_splits sum.splits simp: computeSerie_frame)
qed

lemma computeSerie_no_point:
  assumes "computeSerie isLive time s st = Inr st1"
    and "series (cb_renderer st1) (serie_id s) = Some sd'"
    and "sd_value sd' = Null \<or> (serie_type s = ''histogram'' \<and> sd_value sd' = Num 0)"
  shows "cb_points st1 (serie_id s) = None"
  using assms
  by (auto simp: computeSerie_def andThen_def dropSerie_def unbindSerie_def Let_def
      split: option.splits prod.splits sum.splits if_splits)

lemma computeLoop_no_point:
  assumes "computeLoop isLive time flt ss st = Inr st'"
    and "distinct (map serie_id ss)" and "s \<in> set ss" and "selected flt s"
    and "series (cb_renderer st') (serie_id s) = Some sd'"
    and "sd_value sd' = Null \<or> (serie_type s = ''histogram'' \<and> sd_value sd' = Num 0)"
  shows "cb_points st' (serie_id s) = None"
  using assms
proof (induction ss arbitrary: st)
  case Nil
  then show ?case by simp
next
  case (Cons x xs)
  show ?case
  proof (cases "s = x")
    case True
    with Cons.prems obtain st1 where one: "computeSerie isLive time s st = Inr st1"
      and rest: "computeLoop isLive time flt xs st1 = Inr st'"
      by (auto split: sum.splits)
    from True Cons.prems have "serie_id s \<notin> serie_id ` set xs" by auto
    from computeLoop_frame[OF rest this]
    have same: "series (cb_renderer st') (serie_id s) = series (cb_renderer st1) (serie_id s)"
      "cb_points st' (serie_id s) = cb_points st1 (serie_id s)"
      by simp_all
    with Cons.prems(5) have "series (cb_renderer st1) (serie_id s) = Some sd'" by simp
    from computeSerie_no_point[OF one this Cons.prems(6)] same show ?thesis by simp
  next
    case False
    with Cons.prems have mem: "s \<in> set xs" and dist: "distinct (map serie_id xs)" by auto
    from Cons.prems(1) obtain st1 where "computeLoop isLive time flt xs st1 = Inr st'"
      by (auto split: if_splits sum.splits)
    from Cons.IH[OF this dist mem Cons.prems(4,5,6)] show ?thesis .
  qed
qed

lemma barUpdates_none:
  "pts k = None \<Longrightarrow> UpdateLast k p \<notin> set (barUpdates pts ss)"
  by (induction ss) (auto simp: barUpdates_def split: option.splits)

text \<open>
  C10. When \<^verbatim>\<open>computeBar\<close> returns, a computed series whose value is \<^verbatim>\<open>null\<close>, and a
  series of visual type \<^verbatim>\<open>histogram\<close> whose value is 0, have no entry in the points
  returned. So \<^verbatim>\<open>updateBar\<close> makes no \<^verbatim>\<open>api.update\<close> call for the series
  (incremental update), and nothing is appended for it to the points that \<^verbatim>\<open>renderBars\<close>
  collects for \<^verbatim>\<open>setData\<close> (full replace). The identifiers of the active series are
  taken distinct; the value of a series is the one stored for it in the Renderer.
\<close>

theorem null_and_zero_histogram_emit_no_point:
  assumes "computeBar cfg isLive r flt c = Inr (pts, r', c')"
    and "distinct (map serie_id (activeSeries c))"
    and "s \<in> set (activeSeries c)" and "selected flt s"
    and "series r' (serie_id s) = Some sd'"
    and "sd_value sd' = Null \<or> (serie_type s = ''histogram'' \<and> sd_value sd' = Num 0)"
  shows "pts (serie_id s) = None
       \<and> (\<forall>p. UpdateLast (serie_id s) p \<notin> set (barUpdates pts (activeSeries c')))
       \<and> pushPoints pts computedSeries (serie_id s) = computedSeries (serie_id s)"
proof -
  from assms(1) obtain st' where
    loop: "computeLoop isLive (barTime cfg r) flt (activeSeries c)
             \<lparr>cb_renderer = r, cb_ctl = c, cb_points = Map.empty\<rparr> = Inr st'"
    and res: "pts = cb_points st'" "r' = cb_renderer st'"
    by (auto simp: computeBar_def split: sum.splits)
  from assms(5) res have "series (cb_renderer st') (serie_id s) = Some sd'" by simp
  from computeLoop_no_point[OF loop assms(2,3,4) this assms(6)] res
  have none: "pts (serie_id s) = None" by simp
  then show ?thesis
    by (simp add: barUpdates_none pushPoints_def)
qed

theorem null_and_zero_histogram_emit_no_point_witness:
  "(\<exists>pts r' c'. computeBar minuteBars True fourRenderer None fourController = Inr (pts, r', c')
      \<and> distinct (map serie_id (activeSeries fourController))
      \<and> valueSerie ''quiet'' ''line'' Null \<in> set (activeSeries fourController)
      \<and> valueSerie ''bars'' ''histogram'' (Num 0) \<in> set (activeSeries fourController)
      \<and> series r' ''quiet'' = Some freshData
      \<and> series r' ''bars'' = Some \<lparr>sd_value = Num 0, sd_point = Num 0, sd_functions = [], sd_variables = []\<rparr>
      \<and> pts ''quiet'' = None \<and> pts ''bars'' = None
      \<and> pts ''steady'' = Some (Obj [(''time'', Num 60), (''value'', Num 7)])
      \<and> barUpdates pts (activeSeries c')
          = [UpdateLast ''broken'' (Obj [(''time'', Num 60), (''value'', NaN)]),
             UpdateLast ''steady'' (Obj [(''time'', Num 60), (''value'', Num 7)])])"
proof -
  let ?pts = "[''broken'' \<mapsto> Obj [(''time'', Num 60), (''value'', NaN)],
           ''steady'' \<mapsto> Obj [(''time'', Num 60), (''value'', Num 7)]]"
  let ?zero = "\<lparr>sd_value = Num 0, sd_point = Num 0, sd_functions = [], sd_variables = []\<rparr>"
  let ?r = "fourRenderer\<lparr>series := [''steady'' \<mapsto> \<lparr>sd_value = Num 7, sd_point = Num 7, sd_functions = [], sd_variables = []\<rparr>,
             ''quiet'' \<mapsto> freshData, ''bars'' \<mapsto> ?zero]\<rparr>"
  let ?c = "fourController\<lparr>activeRenderer := Some ?r,
             serieErrors := [(''broken'', Some ''broken is NaN'')], serieDialog := Some ''broken''\<rparr>"
  let ?quiet = "valueSerie ''quiet'' ''line'' Null"
  let ?bars = "valueSerie ''bars'' ''histogram'' (Num 0)"
  note run = four_computeBar
  have d: "distinct (map serie_id (activeSeries fourController))"
    by (simp add: fourController_def fourSeries_def valueSerie_def)
  have mq: "?quiet \<in> set (activeSeries fourController)"
    and mb: "?bars \<in> set (activeSeries fourController)"
    by (simp_all add: fourController_def fourSeries_def)
  have sq: "selected None ?quiet" and sb: "selected None ?bars"
    by (simp_all add: selected_def)
  have bq: "series ?r (serie_id ?quiet) = Some freshData"
    and bb: "series ?r (serie_id ?bars) = Some ?zero"
    by (simp_all add: valueSerie_def)
  have vq: "sd_value freshData = Null \<or> (serie_type ?quiet = ''histogram'' \<and> sd_value freshData = Num 0)"
    by (simp add: freshData_def)
  have vb: "sd_value ?zero = Null \<or> (serie_type ?bars = ''histogram'' \<and> sd_value ?zero = Num 0)"
    by (simp add: valueSerie_def)
  from null_and_zero_histogram_emit_no_point [OF run d mq sq bq vq]
  have nq: "?pts ''quiet'' = None" by (simp add: valueSerie_def)
  from null_and_zero_histogram_emit_no_point [OF run d mb sb bb vb]
  have nb: "?pts ''bars'' = None" by (simp add: valueSerie_def)
  have ups: "barUpdates ?pts (activeSeries ?c)
          = [UpdateLast ''broken'' (Obj [(''time'', Num 60), (''value'', NaN)]),
             UpdateLast ''steady'' (Obj [(''time'', Num 60), (''value'', Num 7)])]"
    by (simp add: barUpdates_def fourController_def fourSeries_def valueSerie_def)
  have vals: "series ?r ''quiet'' = Some freshData \<and> series ?r ''bars'' = Some ?zero
      \<and> ?pts ''steady'' = Some (Obj [(''time'', Num 60), (''value'', Num 7)])"
    by (simp add: freshData_def)
  from run d mq mb nq nb ups vals show ?thesis
    by (intro exI[of _ ?pts] exI[of _ ?r] exI[of _ ?c]) blast
qed

end
